theory Spec2Isabelle
  imports Complex_Main
begin

section \<open>JavaScript strings and numbers\<close>

text \<open>
  Strings are the UTF-8 bytes of the JavaScript string; the operations below cut a string
  only where ASCII text was matched. The string operations the services use are written out:
  \<^verbatim>\<open>s.startsWith(p)\<close>, \<^verbatim>\<open>s.endsWith(p)\<close>, \<^verbatim>\<open>s.lastIndexOf('.')\<close>, \<^verbatim>\<open>s.trim()\<close>,
  \<^verbatim>\<open>s.split('.')\<close>, \<^verbatim>\<open>parts.join('.')\<close> and the two regular expressions
  \<^verbatim>\<open>/^\d+$/\<close> and \<^verbatim>\<open>/^\d+(\.0)?$/\<close>.
\<close>

definition startsWith :: "string \<Rightarrow> string \<Rightarrow> bool" where
  "startsWith s p = (take (length p) s = p)"

definition endsWith :: "string \<Rightarrow> string \<Rightarrow> bool" where
  "endsWith s p = (length p \<le> length s \<and> drop (length s - length p) s = p)"

definition is_digit :: "char \<Rightarrow> bool" where
  "is_digit c = (c \<in> set ''0123456789'')"

text \<open>\<^verbatim>\<open>/^\d+$/.test(s)\<close>\<close>

definition all_digits :: "string \<Rightarrow> bool" where
  "all_digits s = (s \<noteq> [] \<and> list_all is_digit s)"

text \<open>
  \<^verbatim>\<open>/^\d+(\.0)?$/.test(s)\<close>: a non-empty run of digits, then nothing or exactly \<^verbatim>\<open>.0\<close>.
  The run is maximal, since what follows it must be the end or a dot.
\<close>

definition index_rest :: "string \<Rightarrow> bool" where
  "index_rest s =
     (let ds = takeWhile is_digit s; r = dropWhile is_digit s
      in ds \<noteq> [] \<and> (r = [] \<or> r = ''.0''))"

text \<open>\<^verbatim>\<open>s.lastIndexOf('.')\<close>, with \<open>None\<close> for the source's \<open>-1\<close>.\<close>

definition lastIndexOf_dot :: "string \<Rightarrow> nat option" where
  "lastIndexOf_dot s =
     (if CHR ''.'' \<in> set s
      then Some (length s - 1 - length (takeWhile (\<lambda>c. c \<noteq> CHR ''.'') (rev s)))
      else None)"

text \<open>
  \<^verbatim>\<open>s.trim()\<close> removes leading and trailing white space and line terminators: tab, line
  feed, vertical tab, form feed, carriage return, space, U+00A0, U+1680, U+2000 to U+200A,
  U+2028, U+2029, U+202F, U+205F, U+3000 and U+FEFF, here each as its UTF-8 bytes. In
  well-formed UTF-8 a string ends with the bytes of one of them exactly when its last
  character is that one, so the end is stripped on the reversed bytes.
\<close>

definition whiteSpace :: "string list" where
  "whiteSpace =
     [[CHR 0x09], [CHR 0x0A], [CHR 0x0B], [CHR 0x0C], [CHR 0x0D], [CHR 0x20],
      [CHR 0xC2, CHR 0xA0],
      [CHR 0xE1, CHR 0x9A, CHR 0x80],
      [CHR 0xE2, CHR 0x80, CHR 0x80], [CHR 0xE2, CHR 0x80, CHR 0x81],
      [CHR 0xE2, CHR 0x80, CHR 0x82], [CHR 0xE2, CHR 0x80, CHR 0x83],
      [CHR 0xE2, CHR 0x80, CHR 0x84], [CHR 0xE2, CHR 0x80, CHR 0x85],
      [CHR 0xE2, CHR 0x80, CHR 0x86], [CHR 0xE2, CHR 0x80, CHR 0x87],
      [CHR 0xE2, CHR 0x80, CHR 0x88], [CHR 0xE2, CHR 0x80, CHR 0x89],
      [CHR 0xE2, CHR 0x80, CHR 0x8A],
      [CHR 0xE2, CHR 0x80, CHR 0xA8], [CHR 0xE2, CHR 0x80, CHR 0xA9],
      [CHR 0xE2, CHR 0x80, CHR 0xAF],
      [CHR 0xE2, CHR 0x81, CHR 0x9F],
      [CHR 0xE3, CHR 0x80, CHR 0x80],
      [CHR 0xEF, CHR 0xBB, CHR 0xBF]]"

text \<open>Removes, as long as the string starts with one of the byte sequences, that sequence.\<close>

function stripLeading :: "string list \<Rightarrow> string \<Rightarrow> string" where
  "stripLeading ws s =
     (case find (\<lambda>w. w \<noteq> [] \<and> startsWith s w) ws of
        Some w \<Rightarrow> stripLeading ws (drop (length w) s)
      | None \<Rightarrow> s)"
  by pat_completeness auto
termination
proof (relation "measure (\<lambda>(ws, s). length s)")
  show "wf (measure (\<lambda>(ws, s). length s))" by simp
next
  fix ws :: "string list" and s w :: string
  assume "find (\<lambda>w. w \<noteq> [] \<and> startsWith s w) ws = Some w"
  then have "w \<noteq> []" and "take (length w) s = w"
    by (auto simp: find_Some_iff startsWith_def)
  then have "s \<noteq> []" by auto
  with \<open>w \<noteq> []\<close> show "((ws, drop (length w) s), (ws, s)) \<in> measure (\<lambda>(ws, s). length s)"
    by simp
qed

definition trim :: "string \<Rightarrow> string" where
  "trim s = rev (stripLeading (map rev whiteSpace) (rev (stripLeading whiteSpace s)))"

text \<open>\<^verbatim>\<open>s.split('.')\<close>: the empty string splits into one empty part.\<close>

fun split_dot :: "string \<Rightarrow> string list" where
  "split_dot [] = [[]]"
| "split_dot (c # cs) =
     (if c = CHR ''.'' then [] # split_dot cs
      else (case split_dot cs of p # ps \<Rightarrow> (c # p) # ps | [] \<Rightarrow> [[c]]))"

text \<open>\<^verbatim>\<open>parts.join('.')\<close>\<close>

fun join_dot :: "string list \<Rightarrow> string" where
  "join_dot [] = []"
| "join_dot [p] = p"
| "join_dot (p # q # ps) = p @ ''.'' @ join_dot (q # ps)"

text \<open>
  A JavaScript number is an IEEE double. Finite values are modelled by the reals (rounding
  is not modelled); the three special values are kept, because division by zero and the
  square root of a negative number produce them. Every zero denominator that arises below
  is the positive zero.
\<close>

datatype jsnum = Fin real | PosInf | NegInf | NaN

fun js_add :: "jsnum \<Rightarrow> jsnum \<Rightarrow> jsnum" where
  "js_add NaN _ = NaN"
| "js_add _ NaN = NaN"
| "js_add (Fin a) (Fin b) = Fin (a + b)"
| "js_add PosInf NegInf = NaN"
| "js_add NegInf PosInf = NaN"
| "js_add PosInf _ = PosInf"
| "js_add _ PosInf = PosInf"
| "js_add NegInf _ = NegInf"
| "js_add _ NegInf = NegInf"

fun js_neg :: "jsnum \<Rightarrow> jsnum" where
  "js_neg (Fin a) = Fin (- a)"
| "js_neg PosInf = NegInf"
| "js_neg NegInf = PosInf"
| "js_neg NaN = NaN"

definition js_sub :: "jsnum \<Rightarrow> jsnum \<Rightarrow> jsnum" where
  "js_sub a b = js_add a (js_neg b)"

fun js_div :: "jsnum \<Rightarrow> jsnum \<Rightarrow> jsnum" where
  "js_div NaN _ = NaN"
| "js_div _ NaN = NaN"
| "js_div (Fin a) (Fin b) =
     (if b = 0 then (if a = 0 then NaN else if 0 < a then PosInf else NegInf)
      else Fin (a / b))"
| "js_div (Fin a) _ = Fin 0"
| "js_div PosInf (Fin b) = (if 0 \<le> b then PosInf else NegInf)"
| "js_div NegInf (Fin b) = (if 0 \<le> b then NegInf else PosInf)"
| "js_div _ _ = NaN"

text \<open>\<^verbatim>\<open>Math.sqrt\<close>\<close>

fun js_sqrt :: "jsnum \<Rightarrow> jsnum" where
  "js_sqrt (Fin a) = (if a < 0 then NaN else Fin (sqrt a))"
| "js_sqrt PosInf = PosInf"
| "js_sqrt NegInf = NaN"
| "js_sqrt NaN = NaN"

text \<open>Truthiness of an optional number: \<open>undefined\<close>, zero and \<open>NaN\<close> are falsy.\<close>

fun truthy_num :: "jsnum option \<Rightarrow> bool" where
  "truthy_num None = False"
| "truthy_num (Some (Fin a)) = (a \<noteq> 0)"
| "truthy_num (Some NaN) = False"
| "truthy_num (Some _) = True"

section \<open>Poll results (snmp-poller.ts, DeviceResult)\<close>

text \<open>
  A varbind value as net-snmp delivers it: a number (integers, counters, gauges: finite),
  a string, a \<open>Buffer\<close> (its bytes), a \<open>Buffer\<close> that went through JSON
  (\<^verbatim>\<open>{type: 'Buffer', data: [...]}\<close>), \<open>null\<close>, or some other object.
\<close>

datatype snmp_value =
  VNum real | VStr string | VBuf string | VBufJson string | VNull | VObj

text \<open>
  The \<open>data\<close> object of a result, as its entries in property order
  (\<^verbatim>\<open>Object.entries\<close>: insertion order for keys that are not array indices, which OID
  strings with dots are not). A JavaScript object holds a key once.
\<close>

type_synonym oid_map = "(string \<times> snmp_value) list"

record DeviceResult =
  deviceId :: string
  timestamp :: int
  success :: bool
  data :: "oid_map option"
  error :: "string option"

section \<open>The metric parser (database-service.ts, parseSnmpData)\<close>

text \<open>
  \<open>Partial<TransmitterMetricData>\<close>: the fields \<open>parseSnmpData\<close> can set and
  \<open>storeTransmitterMetrics\<close> reads; \<open>None\<close> is an absent property.
\<close>

record TransmitterMetricData =
  powerOutput :: "real option"
  frequency :: "real option"
  vswr :: "jsnum option"
  temperature :: "real option"
  forwardPower :: "real option"
  reflectedPower :: "real option"
  status :: "string option"

definition empty_metrics :: TransmitterMetricData where
  "empty_metrics =
     \<lparr>powerOutput = None, frequency = None, vswr = None, temperature = None,
      forwardPower = None, reflectedPower = None, status = None\<rparr>"

text \<open>The metric names the two mapping tables hold.\<close>

datatype metric_key = K_forwardPower | K_reflectedPower | K_frequency | K_powerOutput

definition oidBaseMappings :: "(string \<times> metric_key) list" where
  "oidBaseMappings =
     [(''1.3.6.1.4.1.31946.4.2.6.10.1'', K_forwardPower),
      (''1.3.6.1.4.1.31946.4.2.6.10.2'', K_reflectedPower),
      (''1.3.6.1.4.1.31946.4.2.6.10.14'', K_frequency)]"

definition directOidMappings :: "(string \<times> metric_key) list" where
  "directOidMappings = [(''1.3.6.1.2.1.1.3.0'', K_powerOutput)]"

text \<open>The parent of an OID: \<^verbatim>\<open>s.substring(0, s.lastIndexOf('.'))\<close> looked up in the base table.\<close>

definition parentMapping :: "string \<Rightarrow> metric_key option" where
  "parentMapping s =
     (case lastIndexOf_dot s of
        Some i \<Rightarrow> map_of oidBaseMappings (take i s)
      | None \<Rightarrow> None)"

definition resolveMetricName :: "string \<Rightarrow> metric_key option" where
  "resolveMetricName oid =
     (case map_of directOidMappings oid of
        Some k \<Rightarrow> Some k
      | None \<Rightarrow>
     (case map_of oidBaseMappings oid of
        Some k \<Rightarrow> Some k
      | None \<Rightarrow>
     (let withoutZero = (if endsWith oid ''.0'' then take (length oid - 2) oid else oid) in
      case map_of oidBaseMappings withoutZero of
        Some k \<Rightarrow> Some k
      | None \<Rightarrow>
     (case parentMapping withoutZero of
        Some k \<Rightarrow> Some k
      | None \<Rightarrow>
        (if endsWith oid ''.0'' then parentMapping (take (length oid - 2) oid)
         else None)))))"

definition statusBase13 :: string where
  "statusBase13 = ''1.3.6.1.4.1.31946.4.2.6.10.13''"

definition statusBase12 :: string where
  "statusBase12 = ''1.3.6.1.4.1.31946.4.2.6.10.12''"

text \<open>
  The loop of \<open>getNumericValueForBase\<close> over \<^verbatim>\<open>Object.entries(d)\<close>: the first numeric
  entry whose key is \<open>base.<n>\<close> or \<open>base.<n>.0\<close>.
\<close>

fun scanIndexed :: "string \<Rightarrow> oid_map \<Rightarrow> real option" where
  "scanIndexed base [] = None"
| "scanIndexed base ((k, v) # es) =
     (case v of
        VNum x \<Rightarrow>
          (if startsWith k (base @ ''.'') \<and> index_rest (drop (length base + 1) k)
           then Some x else scanIndexed base es)
      | _ \<Rightarrow> scanIndexed base es)"

definition getNumericValueForBase :: "string \<Rightarrow> oid_map \<Rightarrow> real option" where
  "getNumericValueForBase base d =
     (case map_of d base of
        Some (VNum x) \<Rightarrow> Some x
      | _ \<Rightarrow>
     (case map_of d (base @ ''.0'') of
        Some (VNum y) \<Rightarrow> Some y
      | _ \<Rightarrow> scanIndexed base d))"

text \<open>\<^verbatim>\<open>typeof v === 'number'\<close> for the result of \<open>getNumericValueForBase\<close>.\<close>

fun is_number :: "real option \<Rightarrow> bool" where
  "is_number (Some _) = True"
| "is_number None = False"

text \<open>\<^verbatim>\<open>(metrics as any)[metricName] = value\<close>\<close>

fun assignMetric :: "TransmitterMetricData \<Rightarrow> metric_key \<Rightarrow> real \<Rightarrow> TransmitterMetricData" where
  "assignMetric m K_forwardPower x = m\<lparr>forwardPower := Some x\<rparr>"
| "assignMetric m K_reflectedPower x = m\<lparr>reflectedPower := Some x\<rparr>"
| "assignMetric m K_frequency x = m\<lparr>frequency := Some x\<rparr>"
| "assignMetric m K_powerOutput x = m\<lparr>powerOutput := Some x\<rparr>"

text \<open>One round of the loop over the entries of \<open>result.data\<close>.\<close>

definition parseEntry :: "string \<times> snmp_value \<Rightarrow> TransmitterMetricData \<Rightarrow> TransmitterMetricData" where
  "parseEntry e m =
     (case resolveMetricName (fst e) of
        None \<Rightarrow> m
      | Some k \<Rightarrow>
          (case snd e of
             VNum x \<Rightarrow>
               (if k = K_frequency then m\<lparr>frequency := Some (x / 100)\<rparr>
                else assignMetric m k x)
           | _ \<Rightarrow> m))"

text \<open>The status derivation: base 10.13 first, then 10.12, then the availability rule.\<close>

definition deriveStatus :: "oid_map \<Rightarrow> TransmitterMetricData \<Rightarrow> TransmitterMetricData" where
  "deriveStatus d m =
     (let v13 = getNumericValueForBase statusBase13 d;
          v12 = getNumericValueForBase statusBase12 d;
          m1 = (if is_number v13
                then m\<lparr>status := Some (if v13 = Some 1 then ''active'' else ''standby'')\<rparr>
                else if is_number v12
                then m\<lparr>status := Some (if v12 = Some 2 then ''active'' else ''standby'')\<rparr>
                else m);
          hasAvailability = (is_number v13 \<or> is_number v12)
      in if hasAvailability then m1 else m1\<lparr>status := Some ''offline''\<rparr>)"

text \<open>The VSWR computed from forward and reflected power when no VSWR is set.\<close>

definition deriveVswr :: "TransmitterMetricData \<Rightarrow> TransmitterMetricData" where
  "deriveVswr m =
     (case (forwardPower m, reflectedPower m) of
        (Some fwd, Some rfl) \<Rightarrow>
          (if fwd \<noteq> 0 \<and> rfl \<noteq> 0 \<and> \<not> truthy_num (vswr m)
           then
             (let reflectionCoeff = js_sqrt (js_div (Fin rfl) (Fin fwd))
              in m\<lparr>vswr := Some (js_div (js_add (Fin 1) reflectionCoeff)
                                         (js_sub (Fin 1) reflectionCoeff))\<rparr>)
           else m)
      | _ \<Rightarrow> m)"

definition parseSnmpData :: "DeviceResult \<Rightarrow> TransmitterMetricData" where
  "parseSnmpData result =
     (case data result of
        None \<Rightarrow> empty_metrics
      | Some d \<Rightarrow>
          (if \<not> success result then empty_metrics
           else deriveVswr (fold parseEntry d (deriveStatus d empty_metrics))))"

section \<open>The persistence store (database-service.ts, schema.ts)\<close>

text \<open>
  A value of type \<open>any\<close> that holds JSON: what \<^verbatim>\<open>JSON.parse\<close> returns and what a
  \<open>contactInfo\<close> property may hold (\<open>undefined\<close> is \<open>JNull\<close>).
\<close>

datatype json =
  JNull | JBool bool | JNum real | JStr string | JArr "json list" | JObj "(string \<times> json) list"

text \<open>JavaScript truthiness and \<^verbatim>\<open>typeof v === 'object'\<close>.\<close>

fun truthy :: "json \<Rightarrow> bool" where
  "truthy JNull = False"
| "truthy (JBool b) = b"
| "truthy (JNum x) = (x \<noteq> 0)"
| "truthy (JStr s) = (s \<noteq> [])"
| "truthy (JArr _) = True"
| "truthy (JObj _) = True"

fun typeof_object :: "json \<Rightarrow> bool" where
  "typeof_object JNull = True"
| "typeof_object (JArr _) = True"
| "typeof_object (JObj _) = True"
| "typeof_object _ = False"

text \<open>The columns of \<open>sites\<close> and \<open>transmitters\<close> that the operations below read or write.\<close>

record site =
  site_id :: string
  site_name :: string
  site_contactInfo :: json
  site_isActive :: "bool option"

record transmitter =
  tx_id :: string
  tx_siteId :: string
  tx_name :: string
  tx_displayOrder :: int
  tx_snmpHost :: string
  tx_isActive :: "bool option"

text \<open>A row of \<open>transmitter_metrics\<close> and a row of \<open>snmp_traps\<close>.\<close>

record metric_row =
  row_transmitterId :: string
  row_timestamp :: int
  row_powerOutput :: "real option"
  row_frequency :: "real option"
  row_vswr :: "jsnum option"
  row_temperature :: "real option"
  row_forwardPower :: "real option"
  row_reflectedPower :: "real option"
  row_status :: string
  row_snmpData :: "oid_map option"
  row_errorMessage :: "string option"

record varbind =
  vb_oid :: string
  vb_type :: "string option"
  vb_value :: snmp_value

record trap_row =
  trap_transmitterId :: "string option"
  trap_siteId :: "string option"
  trap_sourceHost :: string
  trap_sourcePort :: int
  trap_community :: "string option"
  trap_version :: nat
  trap_trapOid :: "string option"
  trap_enterpriseOid :: "string option"
  trap_varbinds :: "varbind list"
  trap_createdAt :: int

text \<open>
  The database: its tables, and the outcome of each query still to come. Every query
  consumes the head of \<open>faults\<close>; \<open>True\<close> means that this query throws (a transient
  storage error), and an empty list that no further query fails.
\<close>

record store =
  transmitters :: "transmitter list"
  sites :: "site list"
  metric_rows :: "metric_row list"
  traps :: "trap_row list"
  faults :: "bool list"

datatype error = StorageError | ConstraintError

definition db_call :: "store \<Rightarrow> bool \<times> store" where
  "db_call st =
     (case faults st of
        [] \<Rightarrow> (False, st)
      | f # fs \<Rightarrow> (f, st\<lparr>faults := fs\<rparr>))"

text \<open>
  \<open>normalizeSite\<close>. \<^verbatim>\<open>JSON.parse\<close> is the parameter \<open>parse\<close>: \<open>None\<close> when it throws.
\<close>

definition legacy_contact :: "string \<Rightarrow> json" where
  "legacy_contact s =
     JObj [(''technician'', JStr []), (''phone'', JStr []), (''email'', JStr s)]"

definition normalizeContact :: "(string \<Rightarrow> json option) \<Rightarrow> json \<Rightarrow> json" where
  "normalizeContact parse contact =
     (if truthy contact
      then
        (case contact of
           JStr s \<Rightarrow>
             (case parse (trim s) of
                Some parsed \<Rightarrow>
                  (if truthy parsed \<and> typeof_object parsed then parsed
                   else legacy_contact s)
              | None \<Rightarrow> legacy_contact s)
         | _ \<Rightarrow> contact)
      else JNull)"

definition normalizeSite :: "(string \<Rightarrow> json option) \<Rightarrow> site option \<Rightarrow> site option" where
  "normalizeSite parse row =
     (case row of
        None \<Rightarrow> None
      | Some r \<Rightarrow> Some (r\<lparr>site_contactInfo := normalizeContact parse (site_contactInfo r)\<rparr>))"

definition getTransmitterById :: "store \<Rightarrow> string \<Rightarrow> (error + transmitter option) \<times> store" where
  "getTransmitterById st transmitterId =
     (case db_call st of
        (True, st') \<Rightarrow> (Inl StorageError, st')
      | (False, st') \<Rightarrow> (Inr (find (\<lambda>t. tx_id t = transmitterId) (transmitters st')), st'))"

definition getSiteById ::
  "(string \<Rightarrow> json option) \<Rightarrow> store \<Rightarrow> string \<Rightarrow> (error + site option) \<times> store" where
  "getSiteById parse st siteId =
     (case db_call st of
        (True, st') \<Rightarrow> (Inl StorageError, st')
      | (False, st') \<Rightarrow>
          (Inr (normalizeSite parse (find (\<lambda>s. site_id s = siteId) (sites st'))), st'))"

text \<open>
  \<open>getAllTransmitters\<close>: ordered by \<open>display_order\<close> (\<open>initializeSchema\<close> sets a null
  order to 0 at start-up); rows with equal order are returned in table order.
\<close>

definition getAllTransmitters :: "store \<Rightarrow> (error + transmitter list) \<times> store" where
  "getAllTransmitters st =
     (case db_call st of
        (True, st') \<Rightarrow> (Inl StorageError, st')
      | (False, st') \<Rightarrow> (Inr (sort_key tx_displayOrder (transmitters st')), st'))"

text \<open>
  \<open>upsertTransmitter\<close> as \<open>storeTransmitterMetrics\<close> calls it, with the data
  \<^verbatim>\<open>{ id, name }\<close>: a row with that id is updated; without one the data is inserted,
  which the not-null columns of \<open>transmitters\<close> refuse.
\<close>

definition upsertTransmitter :: "store \<Rightarrow> string \<Rightarrow> string \<Rightarrow> (error + unit) \<times> store" where
  "upsertTransmitter st ident name =
     (if ident \<noteq> []
      then
        (case db_call st of
           (True, st1) \<Rightarrow> (Inl StorageError, st1)
         | (False, st1) \<Rightarrow>
             (if list_ex (\<lambda>t. tx_id t = ident) (transmitters st1)
              then
                (case db_call st1 of
                   (True, st2) \<Rightarrow> (Inl StorageError, st2)
                 | (False, st2) \<Rightarrow>
                     (Inr (),
                      st2\<lparr>transmitters :=
                            map (\<lambda>t. if tx_id t = ident then t\<lparr>tx_name := name\<rparr> else t)
                              (transmitters st2)\<rparr>))
              else
                (case db_call st1 of
                   (True, st2) \<Rightarrow> (Inl StorageError, st2)
                 | (False, st2) \<Rightarrow> (Inl ConstraintError, st2))))
      else
        (case db_call st of
           (True, st1) \<Rightarrow> (Inl StorageError, st1)
         | (False, st1) \<Rightarrow> (Inl ConstraintError, st1)))"

text \<open>
  The radio name of a result: the value under \<open>1.3.6.1.4.1.31946.3.1.7\<close>, or under its
  scalar form when the first is \<open>null\<close> or absent, decoded and trimmed. A \<open>Buffer\<close> is
  decoded as UTF-8, which keeps the bytes.
\<close>

definition rawRadioName :: "DeviceResult \<Rightarrow> snmp_value option" where
  "rawRadioName result =
     (case data result of
        None \<Rightarrow> None
      | Some d \<Rightarrow>
          (case map_of d ''1.3.6.1.4.1.31946.3.1.7'' of
             None \<Rightarrow> map_of d ''1.3.6.1.4.1.31946.3.1.7.0''
           | Some VNull \<Rightarrow> map_of d ''1.3.6.1.4.1.31946.3.1.7.0''
           | Some v \<Rightarrow> Some v))"

fun radioName :: "snmp_value option \<Rightarrow> string option" where
  "radioName (Some (VStr s)) = (if s \<noteq> [] then Some (trim s) else None)"
| "radioName (Some (VBuf b)) = Some (trim b)"
| "radioName (Some (VBufJson b)) = Some (trim b)"
| "radioName _ = None"

text \<open>
  \<open>storeTransmitterMetrics\<close>. The insert is refused when a row with the same
  \<open>(transmitter_id, timestamp)\<close> exists: the table's primary key.
\<close>

definition insertMetrics :: "store \<Rightarrow> metric_row \<Rightarrow> (error + unit) \<times> store" where
  "insertMetrics st row =
     (case db_call st of
        (True, st') \<Rightarrow> (Inl StorageError, st')
      | (False, st') \<Rightarrow>
          (if list_ex (\<lambda>r. row_transmitterId r = row_transmitterId row
                           \<and> row_timestamp r = row_timestamp row) (metric_rows st')
           then (Inl ConstraintError, st')
           else (Inr (), st'\<lparr>metric_rows := metric_rows st' @ [row]\<rparr>)))"

definition metricsRow :: "string \<Rightarrow> DeviceResult \<Rightarrow> TransmitterMetricData \<Rightarrow> metric_row" where
  "metricsRow devId result metrics =
     \<lparr>row_transmitterId = devId,
      row_timestamp = timestamp result,
      row_powerOutput = powerOutput metrics,
      row_frequency = frequency metrics,
      row_vswr = vswr metrics,
      row_temperature = temperature metrics,
      row_forwardPower = forwardPower metrics,
      row_reflectedPower = reflectedPower metrics,
      row_status = (case status metrics of Some s \<Rightarrow> s | None \<Rightarrow> ''offline''),
      row_snmpData = data result,
      row_errorMessage = error result\<rparr>"

definition storeTransmitterMetrics ::
  "store \<Rightarrow> string \<Rightarrow> DeviceResult \<Rightarrow> (error + unit) \<times> store" where
  "storeTransmitterMetrics st devId result =
     (case db_call st of
        (True, st1) \<Rightarrow> (Inl StorageError, st1)
      | (False, st1) \<Rightarrow>
          (case find (\<lambda>t. tx_id t = devId) (transmitters st1) of
             None \<Rightarrow> (Inr (), st1)
           | Some tx \<Rightarrow>
               (let metrics = parseSnmpData result;
                    renamed =
                      (case radioName (rawRadioName result) of
                         None \<Rightarrow> (Inr (), st1)
                       | Some name \<Rightarrow>
                           (if name \<noteq> [] \<and> tx_name tx \<noteq> name
                            then upsertTransmitter st1 devId name
                            else (Inr (), st1)))
                in case renamed of
                     (Inl e, st2) \<Rightarrow> (Inl e, st2)
                   | (Inr _, st2) \<Rightarrow> insertMetrics st2 (metricsRow devId result metrics))))"

text \<open>\<open>storeSnmpTrap\<close>; \<open>created_at\<close> defaults to the time of the insert, \<open>now\<close>.\<close>

definition storeSnmpTrap :: "store \<Rightarrow> int \<Rightarrow> trap_row \<Rightarrow> (error + unit) \<times> store" where
  "storeSnmpTrap st now trap =
     (case db_call st of
        (True, st') \<Rightarrow> (Inl StorageError, st')
      | (False, st') \<Rightarrow>
          (Inr (), st'\<lparr>traps := traps st' @ [trap\<lparr>trap_createdAt := now\<rparr>]\<rparr>))"

text \<open>
  \<open>getLatestTraps\<close>. A filter parameter is applied when it is a non-empty string; the
  limit is used when it is a number above zero, and is 100 otherwise. Rows with equal
  \<open>created_at\<close> are returned in table order.
\<close>

record trap_params =
  p_limit :: "int option"
  p_transmitterId :: "string option"
  p_siteId :: "string option"
  p_sourceHost :: "string option"

fun truthy_str :: "string option \<Rightarrow> bool" where
  "truthy_str None = False"
| "truthy_str (Some s) = (s \<noteq> [])"

definition trapLimit :: "trap_params \<Rightarrow> nat" where
  "trapLimit params =
     (case p_limit params of
        None \<Rightarrow> 100
      | Some n \<Rightarrow> (if 0 < n then nat n else 100))"

definition trapMatches :: "trap_params \<Rightarrow> trap_row \<Rightarrow> bool" where
  "trapMatches params r =
     ((if truthy_str (p_transmitterId params)
       then trap_transmitterId r = p_transmitterId params else True)
      \<and> (if truthy_str (p_siteId params)
          then trap_siteId r = p_siteId params else True)
      \<and> (if truthy_str (p_sourceHost params)
          then Some (trap_sourceHost r) = p_sourceHost params else True))"

definition newestFirst :: "trap_row list \<Rightarrow> trap_row list" where
  "newestFirst rows = sort_key (\<lambda>r. - trap_createdAt r) rows"

definition getLatestTraps :: "store \<Rightarrow> trap_params \<Rightarrow> (error + trap_row list) \<times> store" where
  "getLatestTraps st params =
     (case db_call st of
        (True, st') \<Rightarrow> (Inl StorageError, st')
      | (False, st') \<Rightarrow>
          (Inr (filter (trapMatches params)
                  (take (trapLimit params) (newestFirst (traps st')))), st'))"

section \<open>The poll scheduler (snmp-poller.ts)\<close>

record SNMPDevice =
  dev_id :: string
  dev_host :: string
  dev_port :: int
  dev_community :: string
  dev_version :: nat
  dev_oids :: "string list"
  dev_pollInterval :: int
  dev_lastPoll :: "int option"
  dev_isActive :: bool

text \<open>\<open>shouldPollDevice\<close>: \<open>True\<close> allows the poll, \<open>False\<close> skips it.\<close>

definition shouldPollDevice ::
  "(string \<Rightarrow> json option) \<Rightarrow> store \<Rightarrow> SNMPDevice \<Rightarrow> bool \<times> store" where
  "shouldPollDevice parse st device =
     (if \<not> dev_isActive device then (False, st)
      else
        (case getTransmitterById st (dev_id device) of
           (Inl e, st1) \<Rightarrow> (True, st1)
         | (Inr None, st1) \<Rightarrow> (True, st1)
         | (Inr (Some t), st1) \<Rightarrow>
             (if tx_isActive t = Some False then (False, st1)
              else if tx_siteId t \<noteq> []
              then
                (case getSiteById parse st1 (tx_siteId t) of
                   (Inl e, st2) \<Rightarrow> (True, st2)
                 | (Inr None, st2) \<Rightarrow> (True, st2)
                 | (Inr (Some s), st2) \<Rightarrow>
                     (if site_isActive s = Some False then (False, st2) else (True, st2)))
              else (True, st1))))"

text \<open>
  The OID expansion of \<open>pollDevice\<close>. \<open>expandedSet\<close> is a \<open>Set\<close>: a list in insertion
  order that holds an element once.
\<close>

definition normalizeOids :: "string list \<Rightarrow> string list" where
  "normalizeOids oids = filter (\<lambda>oid. oid \<noteq> []) (map trim oids)"

definition stripInstance :: "string \<Rightarrow> string" where
  "stripInstance oid =
     (let parts = split_dot oid
      in if all_digits (last parts) then join_dot (butlast parts) else oid)"

definition elenosPrefix :: string where
  "elenosPrefix = ''1.3.6.1.4.1.31946.4.2.6.10.''"

text \<open>\<^verbatim>\<open>/^1\.3\.6\.1\.4\.1\.31946\.4\.2\.6\.10\.(1|2|12|13|14)$/.test(base)\<close>\<close>

definition elenosMetricBase :: "string \<Rightarrow> bool" where
  "elenosMetricBase base =
     (base \<in> set (map (\<lambda>n. elenosPrefix @ n) [''1'', ''2'', ''12'', ''13'', ''14'']))"

definition set_add :: "string list \<Rightarrow> string \<Rightarrow> string list" where
  "set_add s x = (if x \<in> set s then s else s @ [x])"

definition addIndices :: "string list \<Rightarrow> string \<Rightarrow> string list" where
  "addIndices s base = fold (\<lambda>idx acc. set_add acc (base @ ''.'' @ idx)) [''1'', ''2'', ''3'', ''4''] s"

definition expandOne :: "string list \<Rightarrow> string \<Rightarrow> string list" where
  "expandOne s oid =
     (let base = stripInstance oid;
          s1 = set_add s oid;
          s2 = (if endsWith oid ''.0'' then s1 else set_add s1 (base @ ''.0''))
      in if elenosMetricBase base then addIndices s2 base else s2)"

definition coreBases :: "string list" where
  "coreBases =
     [''1.3.6.1.4.1.31946.4.2.6.10.1'',
      ''1.3.6.1.4.1.31946.4.2.6.10.2'',
      ''1.3.6.1.4.1.31946.4.2.6.10.12'',
      ''1.3.6.1.4.1.31946.4.2.6.10.14'']"

definition addCore :: "string list \<Rightarrow> string \<Rightarrow> string list" where
  "addCore s base = addIndices (set_add (set_add s base) (base @ ''.0'')) base"

definition hasAnyElenos :: "string list \<Rightarrow> bool" where
  "hasAnyElenos normalizedOids =
     list_ex (\<lambda>oid. startsWith (stripInstance oid) elenosPrefix) normalizedOids"

definition expandOids :: "string list \<Rightarrow> string list" where
  "expandOids oids =
     (let normalizedOids = normalizeOids oids;
          expandedSet = fold (\<lambda>oid s. expandOne s oid) normalizedOids []
      in if hasAnyElenos normalizedOids
         then fold (\<lambda>base s. addCore s base) coreBases expandedSet
         else expandedSet)"

text \<open>
  The result ring. \<open>recordResult\<close> returns the new poller state and the result it hands to
  the store; \<open>now\<close> is the clock.
\<close>

record SNMPPoller =
  results :: "DeviceResult list"

definition maxResults :: nat where
  "maxResults = 1000"

definition recordResult ::
  "SNMPPoller \<Rightarrow> int \<Rightarrow> string \<Rightarrow> bool \<Rightarrow> oid_map option \<Rightarrow> string option
     \<Rightarrow> SNMPPoller \<times> DeviceResult" where
  "recordResult p now devId succ d err =
     (let result = \<lparr>deviceId = devId, timestamp = now, success = succ, data = d, error = err\<rparr>;
          rs = results p @ [result]
      in (p\<lparr>results := (if maxResults < length rs
                          then drop (length rs - maxResults) rs else rs)\<rparr>,
          result))"

text \<open>\<open>storeResultInDatabase\<close>: a failure of the store is logged and dropped.\<close>

definition storeResultInDatabase :: "store \<Rightarrow> DeviceResult \<Rightarrow> store" where
  "storeResultInDatabase st result = snd (storeTransmitterMetrics st (deviceId result) result)"

text \<open>
  \<open>getResults\<close>. \<^verbatim>\<open>Array.prototype.sort\<close> is stable and sorts the array it is called
  on: with a device id that is the fresh array \<open>filter\<close> made, without one it is
  \<open>this.results\<close> itself. \<^verbatim>\<open>slice(0, limit)\<close> counts a negative limit from the end.
\<close>

definition sortNewestFirst :: "DeviceResult list \<Rightarrow> DeviceResult list" where
  "sortNewestFirst rs = sort_key (\<lambda>r. - timestamp r) rs"

definition slice_from_0 :: "'a list \<Rightarrow> int \<Rightarrow> 'a list" where
  "slice_from_0 xs limit =
     (if 0 \<le> limit then take (nat limit) xs else take (length xs - nat (- limit)) xs)"

definition getResults ::
  "SNMPPoller \<Rightarrow> string option \<Rightarrow> int \<Rightarrow> DeviceResult list \<times> SNMPPoller" where
  "getResults p devId limit =
     (if truthy_str devId
      then
        (slice_from_0
           (sortNewestFirst (filter (\<lambda>r. Some (deviceId r) = devId) (results p))) limit,
         p)
      else
        (let sorted = sortNewestFirst (results p)
         in (slice_from_0 sorted limit, p\<lparr>results := sorted\<rparr>)))"

section \<open>The trap receiver (snmp-trap-manager.ts)\<close>

text \<open>net-snmp's protocol version constants.\<close>

definition Version1 :: int where
  "Version1 = 0"

definition Version2c :: int where
  "Version2c = 1"

record raw_varbind =
  rvb_oid :: string
  rvb_type :: "int option"
  rvb_value :: snmp_value

record rinfo =
  r_address :: "string option"
  r_host :: "string option"
  r_port :: "int option"

record pdu =
  pdu_varbinds :: "raw_varbind list option"
  pdu_community :: "string option"

record notification =
  n_rinfo :: "rinfo option"
  n_source :: "rinfo option"
  n_pdu :: "pdu option"
  n_varbinds :: "raw_varbind list option"
  n_port :: "int option"
  n_community :: "string option"
  n_securityName :: "string option"
  n_version :: "int option"

text \<open>
  \<open>typeNameFromVarbindType\<close>; net-snmp's table \<open>ObjectType\<close> is the parameter
  \<open>objectType\<close>.
\<close>

definition typeNameFromVarbindType :: "(int \<Rightarrow> string option) \<Rightarrow> int option \<Rightarrow> string option" where
  "typeNameFromVarbindType objectType ty =
     (case ty of None \<Rightarrow> None | Some n \<Rightarrow> objectType n)"

definition normalizeVarbinds :: "(int \<Rightarrow> string option) \<Rightarrow> raw_varbind list \<Rightarrow> varbind list" where
  "normalizeVarbinds objectType varbinds =
     map (\<lambda>vb. \<lparr>vb_oid = rvb_oid vb,
                 vb_type = typeNameFromVarbindType objectType (rvb_type vb),
                 vb_value = rvb_value vb\<rparr>) varbinds"

definition stringValueAt :: "string \<Rightarrow> varbind list \<Rightarrow> string option" where
  "stringValueAt oid varbinds =
     (case find (\<lambda>vb. vb_oid vb = oid) varbinds of
        Some vb \<Rightarrow> (case vb_value vb of VStr s \<Rightarrow> Some s | _ \<Rightarrow> None)
      | None \<Rightarrow> None)"

definition extractTrapOids :: "varbind list \<Rightarrow> string option \<times> string option" where
  "extractTrapOids varbinds =
     (stringValueAt ''1.3.6.1.6.3.1.1.4.1.0'' varbinds,
      stringValueAt ''1.3.6.1.4.1.0'' varbinds)"

text \<open>\<^verbatim>\<open>a || b\<close> on optional strings.\<close>

definition or_str :: "string option \<Rightarrow> string option \<Rightarrow> string option" where
  "or_str a b = (if truthy_str a then a else b)"

definition sourceHostOf :: "notification \<Rightarrow> string" where
  "sourceHostOf dat =
     (let ri = (case n_rinfo dat of Some r \<Rightarrow> Some r | None \<Rightarrow> n_source dat);
          h = or_str (case ri of Some r \<Rightarrow> r_address r | None \<Rightarrow> None)
                     (case ri of Some r \<Rightarrow> r_host r | None \<Rightarrow> None)
      in case h of Some s \<Rightarrow> (if s \<noteq> [] then s else ''unknown'') | None \<Rightarrow> ''unknown'')"

definition sourcePortOf :: "notification \<Rightarrow> int \<Rightarrow> int" where
  "sourcePortOf dat fallbackPort =
     (let ri = (case n_rinfo dat of Some r \<Rightarrow> Some r | None \<Rightarrow> n_source dat)
      in case (case ri of Some r \<Rightarrow> r_port r | None \<Rightarrow> None) of
           Some p \<Rightarrow> p
         | None \<Rightarrow> (case n_port dat of Some p \<Rightarrow> p | None \<Rightarrow> fallbackPort))"

definition communityOf :: "notification \<Rightarrow> string option" where
  "communityOf dat =
     (let c = or_str (or_str (case n_pdu dat of Some p \<Rightarrow> pdu_community p | None \<Rightarrow> None)
                             (n_community dat))
                     (n_securityName dat)
      in if truthy_str c then c else None)"

definition varbindsOf :: "notification \<Rightarrow> raw_varbind list" where
  "varbindsOf dat =
     (case (case n_pdu dat of Some p \<Rightarrow> pdu_varbinds p | None \<Rightarrow> None) of
        Some vbs \<Rightarrow> vbs
      | None \<Rightarrow> (case n_varbinds dat of Some vbs \<Rightarrow> vbs | None \<Rightarrow> []))"

text \<open>
  The attribution of \<open>handleNotification\<close>: the first transmitter of the listing whose
  \<open>snmpHost\<close> is the source host; none when the listing throws.
\<close>

definition attribute :: "store \<Rightarrow> string \<Rightarrow> (string option \<times> string option) \<times> store" where
  "attribute st sourceHost =
     (case getAllTransmitters st of
        (Inl e, st1) \<Rightarrow> ((None, None), st1)
      | (Inr allTx, st1) \<Rightarrow>
          (case find (\<lambda>tx. tx_snmpHost tx = sourceHost) allTx of
             Some matched \<Rightarrow> ((Some (tx_id matched), Some (tx_siteId matched)), st1)
           | None \<Rightarrow> ((None, None), st1)))"

definition handleNotification ::
  "(int \<Rightarrow> string option) \<Rightarrow> store \<Rightarrow> int \<Rightarrow> notification \<Rightarrow> int \<Rightarrow> (error + unit) \<times> store" where
  "handleNotification objectType st now dat fallbackPort =
     (let varbinds = normalizeVarbinds objectType (varbindsOf dat);
          sourceHost = sourceHostOf dat;
          versionNum = (if n_version dat = Some Version1 then 0 else 1)
      in case attribute st sourceHost of
           ((transmitterId, siteId), st1) \<Rightarrow>
             storeSnmpTrap st1 now
               \<lparr>trap_transmitterId = transmitterId,
                trap_siteId = siteId,
                trap_sourceHost = sourceHost,
                trap_sourcePort = sourcePortOf dat fallbackPort,
                trap_community = communityOf dat,
                trap_version = versionNum,
                trap_trapOid = fst (extractTrapOids varbinds),
                trap_enterpriseOid = snd (extractTrapOids varbinds),
                trap_varbinds = varbinds,
                trap_createdAt = now\<rparr>)"

text \<open>
  The forms in which a key of the raw map stands under a base OID: the base itself, its
  scalar form \<open>base.0\<close>, or an indexed form \<open>base.<n>\<close> or \<open>base.<n>.0\<close>.
\<close>

definition oid_under_base :: "string \<Rightarrow> string \<Rightarrow> bool" where
  "oid_under_base base k =
     (k = base \<or> k = base @ ''.0'' \<or>
      (\<exists>n. all_digits n \<and> (k = base @ ''.'' @ n \<or> k = base @ ''.'' @ n @ ''.0'')))"

text \<open>
  What one configured OID contributes to the expanded set, and what a core base
  contributes: used to state the set that \<open>expandOids\<close> builds.
\<close>

definition emitted :: "string \<Rightarrow> string set" where
  "emitted oid =
     {oid}
     \<union> (if endsWith oid ''.0'' then {} else {stripInstance oid @ ''.0''})
     \<union> (if elenosMetricBase (stripInstance oid)
        then (\<lambda>idx. stripInstance oid @ ''.'' @ idx) ` set [''1'', ''2'', ''3'', ''4'']
        else {})"

definition coreForms :: "string \<Rightarrow> string set" where
  "coreForms base =
     {base, base @ ''.0''} \<union> (\<lambda>idx. base @ ''.'' @ idx) ` set [''1'', ''2'', ''3'', ''4'']"

section \<open>Properties\<close>

subsection \<open>Status derivation\<close>

lemma dot_not_digit: "\<not> is_digit CHR ''.''"
  by (simp add: is_digit_def)

lemma index_rest_iff:
  "index_rest s \<longleftrightarrow> (\<exists>n. all_digits n \<and> (s = n \<or> s = n @ ''.0''))"
proof
  assume h: "index_rest s"
  let ?n = "takeWhile is_digit s"
  have a: "all_digits ?n"
    using h by (auto simp: index_rest_def all_digits_def Let_def list_all_iff dest: set_takeWhileD)
  have "s = ?n @ dropWhile is_digit s" by simp
  with h have "s = ?n \<or> s = ?n @ ''.0''"
    by (metis append_Nil2 index_rest_def)
  with a show "\<exists>n. all_digits n \<and> (s = n \<or> s = n @ ''.0'')" by blast
next
  assume "\<exists>n. all_digits n \<and> (s = n \<or> s = n @ ''.0'')"
  then obtain n where n: "all_digits n" and s: "s = n \<or> s = n @ ''.0''" by blast
  from n have d: "\<forall>c\<in>set n. is_digit c" and ne: "n \<noteq> []"
    by (auto simp: all_digits_def list_all_iff)
  from s show "index_rest s"
  proof
    assume "s = n"
    with d ne show ?thesis by (simp add: index_rest_def takeWhile_eq_all_conv[THEN iffD2] dropWhile_eq_Nil_conv[THEN iffD2])
  next
    assume "s = n @ ''.0''"
    moreover have "takeWhile is_digit (n @ ''.0'') = n"
      using d by (simp add: takeWhile_append2 dot_not_digit)
    moreover have "dropWhile is_digit (n @ ''.0'') = ''.0''"
      using d by (simp add: dropWhile_append2 dot_not_digit)
    ultimately show ?thesis using ne by (simp add: index_rest_def)
  qed
qed

lemma startsWith_iff: "startsWith k p \<longleftrightarrow> (\<exists>r. k = p @ r)"
  unfolding startsWith_def
  by (metis append_eq_conv_conj append_take_drop_id)

lemma indexed_key_iff:
  "startsWith k (base @ ''.'') \<and> index_rest (drop (length base + 1) k) \<longleftrightarrow>
   (\<exists>n. all_digits n \<and> (k = base @ ''.'' @ n \<or> k = base @ ''.'' @ n @ ''.0''))"
  by (auto simp: startsWith_iff index_rest_iff)

lemma scanIndexed_None:
  "scanIndexed base d = None \<longleftrightarrow>
   (\<forall>k x. (k, VNum x) \<in> set d \<longrightarrow>
      \<not> (startsWith k (base @ ''.'') \<and> index_rest (drop (length base + 1) k)))"
proof (induction d)
  case Nil
  then show ?case by simp
next
  case (Cons e d)
  obtain k v where e: "e = (k, v)" by (cases e)
  show ?case
  proof (cases v)
    case (VNum x)
    with e Cons show ?thesis by (cases "startsWith k (base @ ''.'') \<and> index_rest (drop (length base + 1) k)") auto
  qed (use e Cons in auto)
qed

lemma scanIndexed_Some:
  "scanIndexed base d = Some x \<Longrightarrow>
   \<exists>k. (k, VNum x) \<in> set d \<and> startsWith k (base @ ''.'') \<and> index_rest (drop (length base + 1) k)"
  by (induction d) (auto split: snmp_value.splits if_splits)

lemma getNumeric_Some:
  assumes "getNumericValueForBase base d = Some x"
  shows "\<exists>k. (k, VNum x) \<in> set d \<and> oid_under_base base k"
proof -
  consider (a) "map_of d base = Some (VNum x)"
    | (b) "map_of d (base @ ''.0'') = Some (VNum x)"
    | (c) "scanIndexed base d = Some x"
    using assms unfolding getNumericValueForBase_def
    by (auto split: option.splits snmp_value.splits)
  then show ?thesis
  proof cases
    case a then show ?thesis by (auto simp: oid_under_base_def dest: map_of_SomeD)
  next
    case b then show ?thesis by (auto simp: oid_under_base_def dest!: map_of_SomeD)
  next
    case c
    from scanIndexed_Some[OF c] show ?thesis
      unfolding oid_under_base_def using indexed_key_iff by blast
  qed
qed

lemma scalar_is_indexed:
  "startsWith (base @ ''.0'') (base @ ''.'') \<and> index_rest (drop (length base + 1) (base @ ''.0''))"
  by (simp add: startsWith_def index_rest_def is_digit_def)

lemma getNumeric_None:
  assumes "distinct (map fst d)"
  shows "getNumericValueForBase base d = None \<longleftrightarrow>
         \<not> (\<exists>k x. (k, VNum x) \<in> set d \<and> oid_under_base base k)"
proof
  assume h: "getNumericValueForBase base d = None"
  then have s: "scanIndexed base d = None"
    unfolding getNumericValueForBase_def by (auto split: option.splits snmp_value.splits)
  from h have nb: "\<And>x. map_of d base \<noteq> Some (VNum x)"
    unfolding getNumericValueForBase_def by (auto split: option.splits snmp_value.splits)
  show "\<not> (\<exists>k x. (k, VNum x) \<in> set d \<and> oid_under_base base k)"
  proof
    assume "\<exists>k x. (k, VNum x) \<in> set d \<and> oid_under_base base k"
    then obtain k x where kx: "(k, VNum x) \<in> set d" and f: "oid_under_base base k" by blast
    from f consider "k = base"
      | "startsWith k (base @ ''.'') \<and> index_rest (drop (length base + 1) k)"
      unfolding oid_under_base_def using indexed_key_iff scalar_is_indexed by blast
    then show False
    proof cases
      case 1
      with kx assms have "map_of d base = Some (VNum x)" by simp
      with nb show False by blast
    next
      case 2
      with s kx show False unfolding scanIndexed_None by blast
    qed
  qed
next
  assume h: "\<not> (\<exists>k x. (k, VNum x) \<in> set d \<and> oid_under_base base k)"
  show "getNumericValueForBase base d = None"
  proof (cases "getNumericValueForBase base d")
    case None then show ?thesis .
  next
    case (Some x)
    from getNumeric_Some[OF Some] h show ?thesis by blast
  qed
qed

lemma status_assignMetric: "status (assignMetric m k x) = status m"
  by (cases k) simp_all

lemma status_parseEntry: "status (parseEntry e m) = status m"
  by (simp add: parseEntry_def status_assignMetric split: option.splits snmp_value.splits)

lemma status_fold_parseEntry: "status (fold parseEntry d m) = status m"
  by (induction d arbitrary: m) (simp_all add: status_parseEntry)

lemma status_deriveVswr: "status (deriveVswr m) = status m"
  by (simp add: deriveVswr_def Let_def split: option.splits prod.splits)

lemma status_deriveStatus:
  "status (deriveStatus d m) =
     Some (case getNumericValueForBase ''1.3.6.1.4.1.31946.4.2.6.10.13'' d of
             Some x \<Rightarrow> if x = 1 then ''active'' else ''standby''
           | None \<Rightarrow>
              (case getNumericValueForBase ''1.3.6.1.4.1.31946.4.2.6.10.12'' d of
                 Some y \<Rightarrow> if y = 2 then ''active'' else ''standby''
               | None \<Rightarrow> ''offline''))"
  by (simp add: deriveStatus_def Let_def statusBase13_def statusBase12_def
           split: option.splits)

text \<open>
  C1. For a successful poll with raw map \<open>d\<close> (an object: every key once), the value found
  for a base OID is a numeric value stored under the base in direct, scalar or indexed
  form, and none is found exactly when no such numeric entry exists. The status is derived
  from base 10.13 first (1 is active, anything else, so 2, is standby); only when 10.13
  yields no number from base 10.12 (2 is active, any other number standby); and it is
  offline when neither base yields a number.
\<close>

theorem status_derivation:
  assumes "distinct (map fst d)" and "success r" and "data r = Some d"
  shows "(\<forall>b. getNumericValueForBase b d = None \<longleftrightarrow>
              \<not> (\<exists>k x. (k, VNum x) \<in> set d \<and> oid_under_base b k))
       \<and> (\<forall>b x. getNumericValueForBase b d = Some x \<longrightarrow>
              (\<exists>k. (k, VNum x) \<in> set d \<and> oid_under_base b k))
       \<and> status (parseSnmpData r) =
           Some (case getNumericValueForBase ''1.3.6.1.4.1.31946.4.2.6.10.13'' d of
                   Some x \<Rightarrow> if x = 1 then ''active'' else ''standby''
                 | None \<Rightarrow>
                    (case getNumericValueForBase ''1.3.6.1.4.1.31946.4.2.6.10.12'' d of
                       Some y \<Rightarrow> if y = 2 then ''active'' else ''standby''
                     | None \<Rightarrow> ''offline''))"
proof -
  have "status (parseSnmpData r) =
           Some (case getNumericValueForBase ''1.3.6.1.4.1.31946.4.2.6.10.13'' d of
                   Some x \<Rightarrow> if x = 1 then ''active'' else ''standby''
                 | None \<Rightarrow>
                    (case getNumericValueForBase ''1.3.6.1.4.1.31946.4.2.6.10.12'' d of
                       Some y \<Rightarrow> if y = 2 then ''active'' else ''standby''
                     | None \<Rightarrow> ''offline''))"
    using assms(2,3)
    by (simp add: parseSnmpData_def status_deriveVswr status_fold_parseEntry
                  status_deriveStatus)
  with getNumeric_None[OF assms(1)] getNumeric_Some show ?thesis by blast
qed


theorem status_derivation_witness:
  "distinct (map fst [(''1.3.6.1.4.1.31946.4.2.6.10.12.4'', VNum 2)])
   \<and> status (parseSnmpData
        \<lparr>deviceId = ''tx1'', timestamp = 0, success = True,
           data = Some [(''1.3.6.1.4.1.31946.4.2.6.10.12.4'', VNum 2)],
           error = None\<rparr>) = Some ''active''"
  using status_derivation
    [of "[(''1.3.6.1.4.1.31946.4.2.6.10.12.4'', VNum 2)]"
        "\<lparr>deviceId = ''tx1'', timestamp = 0, success = True,
           data = Some [(''1.3.6.1.4.1.31946.4.2.6.10.12.4'', VNum 2)],
           error = None\<rparr>"]
  by (simp add: getNumericValueForBase_def startsWith_def index_rest_def is_digit_def)

subsection \<open>VSWR derivation\<close>

text \<open>
  C2. The claim: the VSWR is emitted only when it is defined and finite, and with forward
  power equal to reflected power no VSWR is emitted. The code divides by \<open>1 - \<Gamma>\<close> without
  a check: for forward 100 and reflected 100 (here as the poller records them, under the
  scalar key and under the base key) the reflection coefficient is 1 and the VSWR field is
  set to positive infinity. The arithmetic is exact at this input.
\<close>

theorem vswr_infinite_when_forward_equals_reflected:
  "vswr (parseSnmpData
      \<lparr>deviceId = ''tx1'', timestamp = 0, success = True,
         data = Some [(''1.3.6.1.4.1.31946.4.2.6.10.1.0'', VNum 100),
                      (''1.3.6.1.4.1.31946.4.2.6.10.1'', VNum 100),
                      (''1.3.6.1.4.1.31946.4.2.6.10.2.0'', VNum 100),
                      (''1.3.6.1.4.1.31946.4.2.6.10.2'', VNum 100)],
         error = None\<rparr>) = Some PosInf"
  by (simp add: parseSnmpData_def deriveVswr_def deriveStatus_def parseEntry_def
        resolveMetricName_def parentMapping_def lastIndexOf_dot_def endsWith_def
        directOidMappings_def oidBaseMappings_def empty_metrics_def
        getNumericValueForBase_def statusBase13_def statusBase12_def js_sub_def
        startsWith_def)

subsection \<open>OID expansion\<close>

lemma set_set_add: "set (set_add s x) = insert x (set s)"
  by (auto simp: set_add_def)

lemma set_addIndices:
  "set (addIndices s b) = set s \<union> (\<lambda>idx. b @ ''.'' @ idx) ` set [''1'', ''2'', ''3'', ''4'']"
  by (auto simp: addIndices_def set_set_add)

lemma set_expandOne: "set (expandOne s oid) = set s \<union> emitted oid"
  by (auto simp: expandOne_def emitted_def Let_def set_set_add set_addIndices)

lemma set_fold_expandOne:
  "set (fold (\<lambda>oid s. expandOne s oid) xs s) = set s \<union> (\<Union>oid\<in>set xs. emitted oid)"
  by (induction xs arbitrary: s) (auto simp: set_expandOne)

lemma set_addCore: "set (addCore s b) = set s \<union> coreForms b"
  by (auto simp: addCore_def coreForms_def set_set_add set_addIndices)

lemma set_fold_addCore:
  "set (fold (\<lambda>base s. addCore s base) bs s) = set s \<union> (\<Union>b\<in>set bs. coreForms b)"
  by (induction bs arbitrary: s) (auto simp: set_addCore)

lemma set_expandOids:
  "set (expandOids x) =
     (\<Union>oid\<in>set (normalizeOids x). emitted oid)
     \<union> (if hasAnyElenos (normalizeOids x) then (\<Union>b\<in>set coreBases. coreForms b) else {})"
  by (simp add: expandOids_def Let_def set_fold_expandOne set_fold_addCore)

lemma split_dot_nonempty: "split_dot s \<noteq> []"
proof (induction s)
  case Nil
  then show ?case by simp
next
  case (Cons c s)
  then show ?case by (cases "split_dot s") simp_all
qed

lemma split_dot_nodot: "CHR ''.'' \<notin> set t \<Longrightarrow> split_dot t = [t]"
  by (induction t) auto

lemma split_dot_append:
  "CHR ''.'' \<notin> set t \<Longrightarrow> split_dot (s @ ''.'' @ t) = split_dot s @ [t]"
proof (induction s)
  case Nil
  then show ?case by (simp add: split_dot_nodot)
next
  case (Cons c s)
  then show ?case
    using split_dot_nonempty[of s] by (cases "split_dot s") simp_all
qed

lemma join_split_dot: "join_dot (split_dot s) = s"
proof (induction s)
  case Nil
  then show ?case by simp
next
  case (Cons c s)
  show ?case
  proof (cases "split_dot s")
    case Nil
    with split_dot_nonempty show ?thesis by blast
  next
    case (Cons p ps)
    with Cons.IH show ?thesis by (cases ps) simp_all
  qed
qed

lemma join_dot_snoc: "ps \<noteq> [] \<Longrightarrow> join_dot (ps @ [t]) = join_dot ps @ ''.'' @ t"
  by (induction ps rule: join_dot.induct) simp_all

lemma stripInstance_scalar: "stripInstance (b @ ''.0'') = b"
proof -
  have "split_dot (b @ ''.0'') = split_dot b @ [''0'']"
    using split_dot_append[of "''0''" b] by simp
  then show ?thesis
    by (simp add: stripInstance_def all_digits_def is_digit_def join_split_dot)
qed

lemma stripInstance_index:
  "all_digits n \<Longrightarrow> stripInstance (b @ ''.'' @ n) = b"
proof -
  assume n: "all_digits n"
  then have "CHR ''.'' \<notin> set n"
    using dot_not_digit by (auto simp: all_digits_def list_all_iff)
  then have "split_dot (b @ ''.'' @ n) = split_dot b @ [n]"
    by (rule split_dot_append)
  with n show ?thesis
    by (simp add: stripInstance_def join_split_dot)
qed

lemma expand_scalar_forward_power:
  "expandOids [''1.3.6.1.4.1.31946.4.2.6.10.1.0''] =
    [''1.3.6.1.4.1.31946.4.2.6.10.1.0'', ''1.3.6.1.4.1.31946.4.2.6.10.1.1'',
     ''1.3.6.1.4.1.31946.4.2.6.10.1.2'', ''1.3.6.1.4.1.31946.4.2.6.10.1.3'',
     ''1.3.6.1.4.1.31946.4.2.6.10.1.4'', ''1.3.6.1.4.1.31946.4.2.6.10.1'',
     ''1.3.6.1.4.1.31946.4.2.6.10.2'', ''1.3.6.1.4.1.31946.4.2.6.10.2.0'',
     ''1.3.6.1.4.1.31946.4.2.6.10.2.1'', ''1.3.6.1.4.1.31946.4.2.6.10.2.2'',
     ''1.3.6.1.4.1.31946.4.2.6.10.2.3'', ''1.3.6.1.4.1.31946.4.2.6.10.2.4'',
     ''1.3.6.1.4.1.31946.4.2.6.10.12'', ''1.3.6.1.4.1.31946.4.2.6.10.12.0'',
     ''1.3.6.1.4.1.31946.4.2.6.10.12.1'', ''1.3.6.1.4.1.31946.4.2.6.10.12.2'',
     ''1.3.6.1.4.1.31946.4.2.6.10.12.3'', ''1.3.6.1.4.1.31946.4.2.6.10.12.4'',
     ''1.3.6.1.4.1.31946.4.2.6.10.14'', ''1.3.6.1.4.1.31946.4.2.6.10.14.0'',
     ''1.3.6.1.4.1.31946.4.2.6.10.14.1'', ''1.3.6.1.4.1.31946.4.2.6.10.14.2'',
     ''1.3.6.1.4.1.31946.4.2.6.10.14.3'', ''1.3.6.1.4.1.31946.4.2.6.10.14.4'']"
  by code_simp

lemma normalizeOids_mem:
  "y \<in> set ys \<Longrightarrow> trim y = y \<Longrightarrow> y \<noteq> [] \<Longrightarrow> y \<in> set (normalizeOids ys)"
  by (force simp: normalizeOids_def)

lemma expandOids_scalar_form:
  assumes "oid \<in> set (normalizeOids ys)" and "\<not> endsWith oid ''.0''"
  shows "stripInstance oid @ ''.0'' \<in> set (expandOids ys)"
  using assms unfolding set_expandOids emitted_def by auto

lemma strip_forward_power:
  "stripInstance ''1.3.6.1.4.1.31946.4.2.6.10.1'' = ''1.3.6.1.4.1.31946.4.2.6.10''"
  using stripInstance_index[of "''1''" "''1.3.6.1.4.1.31946.4.2.6.10''"]
  by (simp add: all_digits_def is_digit_def)

text \<open>
  C3. The claim: for each normalized OID the expansion emits the OID itself and, when it
  does not end in \<open>.0\<close>, that same OID with \<open>.0\<close> appended, so that the configured
  \<open>1.3.6.1.4.1.31946.4.2.6.10.1\<close> yields \<open>1.3.6.1.4.1.31946.4.2.6.10.1.0\<close>. The code
  appends \<open>.0\<close> to the OID with its last numeric component stripped: for this
  configured OID the expanded list is the OID and \<open>1.3.6.1.4.1.31946.4.2.6.10.0\<close>, and
  the scalar form of the OID is not in it.
\<close>

theorem expand_appends_scalar_to_stripped_base:
  "expandOids [''1.3.6.1.4.1.31946.4.2.6.10.1''] =
     [''1.3.6.1.4.1.31946.4.2.6.10.1'', ''1.3.6.1.4.1.31946.4.2.6.10.0'']
   \<and> ''1.3.6.1.4.1.31946.4.2.6.10.1.0''
       \<notin> set (expandOids [''1.3.6.1.4.1.31946.4.2.6.10.1''])"
proof -
  have "expandOids [''1.3.6.1.4.1.31946.4.2.6.10.1''] =
     [''1.3.6.1.4.1.31946.4.2.6.10.1'', ''1.3.6.1.4.1.31946.4.2.6.10.0'']"
    by code_simp
  then show ?thesis by simp
qed

text \<open>
  C4. The claim: expanding an expanded OID list gives the same set. Expanding
  \<open>1.3.6.1.4.1.31946.4.2.6.10.1.0\<close> adds the core base
  \<open>1.3.6.1.4.1.31946.4.2.6.10.1\<close>; expanding the result again strips that base to
  \<open>1.3.6.1.4.1.31946.4.2.6.10\<close> and adds \<open>1.3.6.1.4.1.31946.4.2.6.10.0\<close>, which the
  first expansion does not hold. The two sets differ, by the scalar form that the code
  builds from the stripped OID instead of the OID itself.
\<close>

theorem expand_not_idempotent:
  "''1.3.6.1.4.1.31946.4.2.6.10.0''
     \<in> set (expandOids (expandOids [''1.3.6.1.4.1.31946.4.2.6.10.1.0'']))
   \<and> ''1.3.6.1.4.1.31946.4.2.6.10.0''
       \<notin> set (expandOids [''1.3.6.1.4.1.31946.4.2.6.10.1.0''])
   \<and> set (expandOids (expandOids [''1.3.6.1.4.1.31946.4.2.6.10.1.0''])) \<noteq>
       set (expandOids [''1.3.6.1.4.1.31946.4.2.6.10.1.0''])"
proof -
  let ?x = "[''1.3.6.1.4.1.31946.4.2.6.10.1.0'']"
  have out: "''1.3.6.1.4.1.31946.4.2.6.10.0'' \<notin> set (expandOids ?x)"
    unfolding expand_scalar_forward_power by simp
  have "''1.3.6.1.4.1.31946.4.2.6.10.1'' \<in> set (expandOids ?x)"
    unfolding expand_scalar_forward_power by simp
  moreover have "trim ''1.3.6.1.4.1.31946.4.2.6.10.1'' = ''1.3.6.1.4.1.31946.4.2.6.10.1''"
    by code_simp
  ultimately have "''1.3.6.1.4.1.31946.4.2.6.10.1'' \<in> set (normalizeOids (expandOids ?x))"
    by (intro normalizeOids_mem) simp_all
  moreover have "\<not> endsWith ''1.3.6.1.4.1.31946.4.2.6.10.1'' ''.0''"
    by (simp add: endsWith_def)
  ultimately have "stripInstance ''1.3.6.1.4.1.31946.4.2.6.10.1'' @ ''.0''
      \<in> set (expandOids (expandOids ?x))"
    by (rule expandOids_scalar_form)
  then have inn: "''1.3.6.1.4.1.31946.4.2.6.10.0'' \<in> set (expandOids (expandOids ?x))"
    by (simp add: strip_forward_power)
  from inn out have "set (expandOids (expandOids ?x)) \<noteq> set (expandOids ?x)" by blast
  with inn out show ?thesis by blast
qed

subsection \<open>Gating\<close>

text \<open>
  C6. The gating check skips the poll whenever the transmitter lookup returns a
  transmitter whose \<open>is_active\<close> flag is false, and whenever the site lookup returns the
  owning site with \<open>is_active\<close> false; what a lookup returns is the stored row with its
  stored flag. Whenever a lookup that the check performs throws (the transmitter lookup, or
  the site lookup after it), the check allows the poll.
\<close>

theorem gating_check:
  "(fst (getTransmitterById st (dev_id device)) = Inr (Some t) \<and> tx_isActive t = Some False
      \<longrightarrow> fst (shouldPollDevice parse st device) = False)
   \<and> (fst (getTransmitterById st (dev_id device)) = Inr (Some t) \<and> tx_siteId t \<noteq> []
       \<and> fst (getSiteById parse (snd (getTransmitterById st (dev_id device))) (tx_siteId t))
           = Inr (Some s)
       \<and> site_isActive s = Some False
      \<longrightarrow> fst (shouldPollDevice parse st device) = False)
   \<and> (dev_isActive device \<and> fst (getTransmitterById st (dev_id device)) = Inl e
      \<longrightarrow> fst (shouldPollDevice parse st device) = True)
   \<and> (dev_isActive device
       \<and> fst (getTransmitterById st (dev_id device)) = Inr (Some t)
       \<and> tx_isActive t \<noteq> Some False \<and> tx_siteId t \<noteq> []
       \<and> fst (getSiteById parse (snd (getTransmitterById st (dev_id device))) (tx_siteId t))
           = Inl e
      \<longrightarrow> fst (shouldPollDevice parse st device) = True)
   \<and> (fst (getTransmitterById st (dev_id device)) = Inr (Some t)
      \<longrightarrow> find (\<lambda>x. tx_id x = dev_id device) (transmitters st) = Some t)
   \<and> (fst (getSiteById parse (snd (getTransmitterById st (dev_id device))) (tx_siteId t))
         = Inr (Some s)
      \<longrightarrow> (\<exists>row. find (\<lambda>x. site_id x = tx_siteId t) (sites st) = Some row
                 \<and> site_isActive row = site_isActive s))"
proof -
  obtain r1 st1 where g: "getTransmitterById st (dev_id device) = (r1, st1)"
    by (cases "getTransmitterById st (dev_id device)")
  obtain r2 st2 where h: "getSiteById parse st1 (tx_siteId t) = (r2, st2)"
    by (cases "getSiteById parse st1 (tx_siteId t)")
  have tables: "transmitters st1 = transmitters st \<and> sites st1 = sites st"
    using g by (auto simp: getTransmitterById_def db_call_def split: list.splits bool.splits)
  have stored_tx: "r1 = Inr (Some t) \<longrightarrow>
      find (\<lambda>x. tx_id x = dev_id device) (transmitters st) = Some t"
    using g by (auto simp: getTransmitterById_def db_call_def split: list.splits bool.splits)
  have stored_site: "r2 = Inr (Some s) \<longrightarrow>
      (\<exists>row. find (\<lambda>x. site_id x = tx_siteId t) (sites st) = Some row
          \<and> site_isActive row = site_isActive s)"
    using h tables
    by (auto simp: getSiteById_def db_call_def normalizeSite_def
             split: list.splits bool.splits option.splits)
  have gate: "(r1 = Inr (Some t) \<and> tx_isActive t = Some False
      \<longrightarrow> fst (shouldPollDevice parse st device) = False)
   \<and> (r1 = Inr (Some t) \<and> tx_siteId t \<noteq> [] \<and> r2 = Inr (Some s)
       \<and> site_isActive s = Some False
      \<longrightarrow> fst (shouldPollDevice parse st device) = False)
   \<and> (dev_isActive device \<and> r1 = Inl e
      \<longrightarrow> fst (shouldPollDevice parse st device) = True)
   \<and> (dev_isActive device \<and> r1 = Inr (Some t)
       \<and> tx_isActive t \<noteq> Some False \<and> tx_siteId t \<noteq> [] \<and> r2 = Inl e
      \<longrightarrow> fst (shouldPollDevice parse st device) = True)"
    by (simp add: shouldPollDevice_def g h split: sum.splits option.splits)
  from gate stored_tx stored_site show ?thesis by (simp add: g h)
qed

theorem gating_check_witness:
  "fst (shouldPollDevice (\<lambda>s. None)
     \<lparr>transmitters =
        [\<lparr>tx_id = ''tx1'', tx_siteId = ''siteA'', tx_name = ''Radio One'',
          tx_displayOrder = 0, tx_snmpHost = ''10.0.0.5'', tx_isActive = Some True\<rparr>],
      sites = [\<lparr>site_id = ''siteA'', site_name = ''Hill'', site_contactInfo = JNull,
                site_isActive = Some False\<rparr>],
      metric_rows = [], traps = [], faults = []\<rparr>
     \<lparr>dev_id = ''tx1'', dev_host = ''10.0.0.5'', dev_port = 161, dev_community = ''public'',
      dev_version = 1, dev_oids = [], dev_pollInterval = 10000, dev_lastPoll = None,
      dev_isActive = True\<rparr>) = False
   \<and> fst (shouldPollDevice (\<lambda>s. None)
     \<lparr>transmitters = [], sites = [], metric_rows = [], traps = [], faults = [True]\<rparr>
     \<lparr>dev_id = ''tx1'', dev_host = ''10.0.0.5'', dev_port = 161, dev_community = ''public'',
      dev_version = 1, dev_oids = [], dev_pollInterval = 10000, dev_lastPoll = None,
      dev_isActive = True\<rparr>) = True"
proof -
  let ?d = "\<lparr>dev_id = ''tx1'', dev_host = ''10.0.0.5'', dev_port = 161, dev_community = ''public'',
      dev_version = 1, dev_oids = [], dev_pollInterval = 10000, dev_lastPoll = None,
      dev_isActive = True\<rparr>"
  let ?t = "\<lparr>tx_id = ''tx1'', tx_siteId = ''siteA'', tx_name = ''Radio One'',
          tx_displayOrder = 0, tx_snmpHost = ''10.0.0.5'', tx_isActive = Some True\<rparr>"
  let ?s = "\<lparr>site_id = ''siteA'', site_name = ''Hill'', site_contactInfo = JNull,
                site_isActive = Some False\<rparr>"
  let ?st = "\<lparr>transmitters = [?t], sites = [?s], metric_rows = [], traps = [], faults = []\<rparr>"
  let ?sf = "\<lparr>transmitters = [], sites = [], metric_rows = [], traps = [], faults = [True]\<rparr>"
  have a: "fst (shouldPollDevice (\<lambda>s. None) ?st ?d) = False"
    using gating_check[of ?st ?d ?t "\<lambda>s. None" ?s StorageError]
    by (simp add: getTransmitterById_def getSiteById_def db_call_def normalizeSite_def
          normalizeContact_def)
  have b: "fst (shouldPollDevice (\<lambda>s. None) ?sf ?d) = True"
    using gating_check[of ?sf ?d ?t "\<lambda>s. None" ?s StorageError]
    by (simp add: getTransmitterById_def db_call_def)
  from a b show ?thesis by simp
qed

subsection \<open>Storing poll results\<close>

lemma db_call_no_faults: "faults st = [] \<Longrightarrow> db_call st = (False, st)"
  by (simp add: db_call_def)

lemma parse_failure: "\<not> success r \<or> data r = None \<Longrightarrow> parseSnmpData r = empty_metrics"
  by (auto simp: parseSnmpData_def split: option.splits)

lemma parse_status_values:
  "status (parseSnmpData r) \<in> {None, Some ''active'', Some ''standby'', Some ''offline''}"
proof (cases "success r \<and> data r \<noteq> None")
  case True
  then obtain d where "data r = Some d" by blast
  with True show ?thesis
    by (simp add: parseSnmpData_def status_deriveVswr status_fold_parseEntry
          status_deriveStatus split: option.splits)
next
  case False
  then have "parseSnmpData r = empty_metrics" by (intro parse_failure) blast
  then show ?thesis by (simp add: empty_metrics_def)
qed

lemma upsert_existing:
  assumes "faults st = []" and "find (\<lambda>t. tx_id t = devId) (transmitters st) = Some tx"
    and "devId \<noteq> []"
  shows "\<exists>st'. upsertTransmitter st devId name = (Inr (), st') \<and> faults st' = []
           \<and> metric_rows st' = metric_rows st"
proof -
  from assms(2) have "list_ex (\<lambda>t. tx_id t = devId) (transmitters st)"
    by (auto simp: list_ex_iff find_Some_iff)
  with assms(1,3) show ?thesis
    by (simp add: upsertTransmitter_def db_call_no_faults)
qed

lemma insert_fresh:
  assumes "faults st = []"
    and "\<not> list_ex (\<lambda>r. row_transmitterId r = row_transmitterId row
                          \<and> row_timestamp r = row_timestamp row) (metric_rows st)"
  shows "insertMetrics st row = (Inr (), st\<lparr>metric_rows := metric_rows st @ [row]\<rparr>)"
  using assms by (simp add: insertMetrics_def db_call_no_faults)

lemma store_inserts_row:
  assumes nf: "faults st = []"
    and tx: "find (\<lambda>t. tx_id t = devId) (transmitters st) = Some tx"
    and ne: "devId \<noteq> []"
    and fresh: "\<not> list_ex (\<lambda>r. row_transmitterId r = devId
                          \<and> row_timestamp r = timestamp result) (metric_rows st)"
  shows "fst (storeTransmitterMetrics st devId result) = Inr () \<and>
         metric_rows (snd (storeTransmitterMetrics st devId result)) =
           metric_rows st @ [metricsRow devId result (parseSnmpData result)]"
proof -
  let ?row = "metricsRow devId result (parseSnmpData result)"
  have key: "row_transmitterId ?row = devId" "row_timestamp ?row = timestamp result"
    by (simp_all add: metricsRow_def)
  define renamed where "renamed =
     (case radioName (rawRadioName result) of
        None \<Rightarrow> (Inr (), st)
      | Some name \<Rightarrow>
          (if name \<noteq> [] \<and> tx_name tx \<noteq> name
           then upsertTransmitter st devId name
           else (Inr (), st)))"
  have "\<exists>st2. renamed = (Inr (), st2) \<and> faults st2 = [] \<and> metric_rows st2 = metric_rows st"
    unfolding renamed_def using upsert_existing[OF nf tx ne] nf
    by (auto split: option.splits)
  then obtain st2 where r: "renamed = (Inr (), st2)" and f2: "faults st2 = []"
    and m2: "metric_rows st2 = metric_rows st" by blast
  have ins: "insertMetrics st2 ?row = (Inr (), st2\<lparr>metric_rows := metric_rows st2 @ [?row]\<rparr>)"
    using f2 fresh by (intro insert_fresh) (simp_all add: key m2)
  have "storeTransmitterMetrics st devId result = insertMetrics st2 ?row"
    using r unfolding renamed_def
    by (simp add: storeTransmitterMetrics_def db_call_no_faults[OF nf] tx Let_def)
  with ins m2 show ?thesis by simp
qed

text \<open>
  C9. When no query fails, the transmitter of the result exists (under its non-empty id)
  and no row with the same transmitter and timestamp is stored yet, the metric store
  appends exactly one row for the result, whether the poll succeeded or not. The status of
  that row is one of \<open>active\<close>, \<open>standby\<close> and \<open>offline\<close>. For a result with
  \<open>success = false\<close> or without data the row has status \<open>offline\<close>, no metric field
  set, and the error message of the result.
\<close>

theorem failed_poll_stored_offline:
  assumes "faults st = []"
    and "find (\<lambda>t. tx_id t = devId) (transmitters st) = Some tx"
    and "devId \<noteq> []"
    and "\<not> list_ex (\<lambda>r. row_transmitterId r = devId
                          \<and> row_timestamp r = timestamp result) (metric_rows st)"
  shows "fst (storeTransmitterMetrics st devId result) = Inr ()
     \<and> (\<exists>row. metric_rows (snd (storeTransmitterMetrics st devId result)) =
                 metric_rows st @ [row]
            \<and> row_status row \<in> {''active'', ''standby'', ''offline''}
            \<and> (\<not> success result \<or> data result = None \<longrightarrow>
                 row = \<lparr>row_transmitterId = devId, row_timestamp = timestamp result,
                        row_powerOutput = None, row_frequency = None, row_vswr = None,
                        row_temperature = None, row_forwardPower = None,
                        row_reflectedPower = None, row_status = ''offline'',
                        row_snmpData = data result, row_errorMessage = error result\<rparr>))"
proof -
  let ?row = "metricsRow devId result (parseSnmpData result)"
  have "status (parseSnmpData result) = None \<or> status (parseSnmpData result) = Some ''active''
      \<or> status (parseSnmpData result) = Some ''standby''
      \<or> status (parseSnmpData result) = Some ''offline''"
    using parse_status_values[of result] by blast
  then have st: "row_status ?row = ''active'' \<or> row_status ?row = ''standby''
      \<or> row_status ?row = ''offline''"
    unfolding metricsRow_def by (elim disjE) simp_all
  have fl: "\<not> success result \<or> data result = None \<Longrightarrow>
        ?row = \<lparr>row_transmitterId = devId, row_timestamp = timestamp result,
                row_powerOutput = None, row_frequency = None, row_vswr = None,
                row_temperature = None, row_forwardPower = None,
                row_reflectedPower = None, row_status = ''offline'',
                row_snmpData = data result, row_errorMessage = error result\<rparr>"
    by (simp add: parse_failure metricsRow_def empty_metrics_def)
  have ins: "fst (storeTransmitterMetrics st devId result) = Inr ()"
    and rows: "metric_rows (snd (storeTransmitterMetrics st devId result)) =
           metric_rows st @ [?row]"
    using store_inserts_row[OF assms] by simp_all
  show ?thesis
  proof (intro conjI exI[of _ ?row] impI)
    show "fst (storeTransmitterMetrics st devId result) = Inr ()" by (rule ins)
    show "metric_rows (snd (storeTransmitterMetrics st devId result)) = metric_rows st @ [?row]"
      by (rule rows)
    show "row_status ?row \<in> {''active'', ''standby'', ''offline''}"
      using st by (elim disjE) simp_all
    show "?row = \<lparr>row_transmitterId = devId, row_timestamp = timestamp result,
                row_powerOutput = None, row_frequency = None, row_vswr = None,
                row_temperature = None, row_forwardPower = None,
                row_reflectedPower = None, row_status = ''offline'',
                row_snmpData = data result, row_errorMessage = error result\<rparr>"
      if "\<not> success result \<or> data result = None"
      using that by (rule fl)
  qed
qed

theorem failed_poll_stored_offline_witness:
  "metric_rows (snd (storeTransmitterMetrics
      \<lparr>transmitters =
         [\<lparr>tx_id = ''tx1'', tx_siteId = ''siteA'', tx_name = ''Radio One'',
           tx_displayOrder = 0, tx_snmpHost = ''10.0.0.5'', tx_isActive = Some True\<rparr>],
       sites = [], metric_rows = [], traps = [], faults = []\<rparr>
      ''tx1''
      \<lparr>deviceId = ''tx1'', timestamp = 1000, success = False, data = None,
         error = Some ''Request timed out''\<rparr>)) =
   [\<lparr>row_transmitterId = ''tx1'', row_timestamp = 1000,
      row_powerOutput = None, row_frequency = None, row_vswr = None,
      row_temperature = None, row_forwardPower = None,
      row_reflectedPower = None, row_status = ''offline'',
      row_snmpData = None, row_errorMessage = Some ''Request timed out''\<rparr>]"
  using failed_poll_stored_offline
    [of "\<lparr>transmitters =
         [\<lparr>tx_id = ''tx1'', tx_siteId = ''siteA'', tx_name = ''Radio One'',
           tx_displayOrder = 0, tx_snmpHost = ''10.0.0.5'', tx_isActive = Some True\<rparr>],
       sites = [], metric_rows = [], traps = [], faults = []\<rparr>"
        "''tx1''"
        "\<lparr>tx_id = ''tx1'', tx_siteId = ''siteA'', tx_name = ''Radio One'',
           tx_displayOrder = 0, tx_snmpHost = ''10.0.0.5'', tx_isActive = Some True\<rparr>"
        "\<lparr>deviceId = ''tx1'', timestamp = 1000, success = False, data = None,
           error = Some ''Request timed out''\<rparr>"]
  by auto

subsection \<open>Trap queries\<close>

lemma newestFirst_descending:
  "sorted_wrt (\<lambda>a b. trap_createdAt b \<le> trap_createdAt a) (newestFirst rows)"
proof -
  have "sorted (map (\<lambda>r. - trap_createdAt r) (newestFirst rows))"
    by (simp add: newestFirst_def)
  then show ?thesis by (simp add: sorted_map)
qed

lemma newestFirst_set: "set (newestFirst rows) = set rows \<and> length (newestFirst rows) = length rows"
  by (simp add: newestFirst_def)

lemma latest_traps_short_example:
  "let old_trap = \<lparr>trap_transmitterId = None, trap_siteId = None,
                    trap_sourceHost = ''10.0.0.5'', trap_sourcePort = 162,
                    trap_community = None, trap_version = 1, trap_trapOid = None,
                    trap_enterpriseOid = None, trap_varbinds = [], trap_createdAt = 1\<rparr>;
       new_trap = \<lparr>trap_transmitterId = None, trap_siteId = None,
                    trap_sourceHost = ''10.0.0.9'', trap_sourcePort = 162,
                    trap_community = None, trap_version = 1, trap_trapOid = None,
                    trap_enterpriseOid = None, trap_varbinds = [], trap_createdAt = 2\<rparr>;
       st = \<lparr>transmitters = [], sites = [], metric_rows = [],
              traps = [old_trap, new_trap], faults = []\<rparr>;
       params = \<lparr>p_limit = Some 1, p_transmitterId = None, p_siteId = None,
                  p_sourceHost = Some ''10.0.0.5''\<rparr>
   in fst (getLatestTraps st params) = Inr []
      \<and> trapLimit params = 1
      \<and> trapMatches params old_trap \<and> old_trap \<in> set (traps st)"
  by (simp add: getLatestTraps_def db_call_def trapLimit_def trapMatches_def newestFirst_def
        Let_def)

text \<open>
  C10. When the query does not fail, the latest-traps query returns the rows that match the
  transmitter, site and source-host filters among the newest \<open>limit\<close> rows only: the
  table is ordered descending by \<open>created_at\<close>, cut to the limit (100 when the limit is
  missing or not positive), and filtered after that. So there are table states and
  parameters for which it returns fewer than \<open>limit\<close> rows although an older matching
  trap is stored.
\<close>

theorem latest_traps_filter_after_limit:
  "(faults st = [] \<longrightarrow>
      fst (getLatestTraps st params) =
        Inr (filter (trapMatches params) (take (trapLimit params) (newestFirst (traps st)))))
   \<and> (p_limit params = None \<longrightarrow> trapLimit params = 100)
   \<and> (\<forall>n. p_limit params = Some n \<longrightarrow> trapLimit params = (if 0 < n then nat n else 100))
   \<and> sorted_wrt (\<lambda>a b. trap_createdAt b \<le> trap_createdAt a) (newestFirst (traps st))
   \<and> set (newestFirst (traps st)) = set (traps st)
   \<and> (\<exists>st' params' rows.
         faults st' = [] \<and> fst (getLatestTraps st' params') = Inr rows
         \<and> length rows < trapLimit params'
         \<and> (\<exists>r \<in> set (traps st'). trapMatches params' r \<and> r \<notin> set rows))"
proof (intro conjI)
  show "faults st = [] \<longrightarrow>
      fst (getLatestTraps st params) =
        Inr (filter (trapMatches params) (take (trapLimit params) (newestFirst (traps st))))"
    by (simp add: getLatestTraps_def db_call_def)
  show "p_limit params = None \<longrightarrow> trapLimit params = 100"
    by (simp add: trapLimit_def)
  show "\<forall>n. p_limit params = Some n \<longrightarrow> trapLimit params = (if 0 < n then nat n else 100)"
    by (simp add: trapLimit_def)
  show "sorted_wrt (\<lambda>a b. trap_createdAt b \<le> trap_createdAt a) (newestFirst (traps st))"
    by (rule newestFirst_descending)
  show "set (newestFirst (traps st)) = set (traps st)"
    by (simp add: newestFirst_set)
  let ?old = "\<lparr>trap_transmitterId = None, trap_siteId = None,
                    trap_sourceHost = ''10.0.0.5'', trap_sourcePort = 162,
                    trap_community = None, trap_version = 1, trap_trapOid = None,
                    trap_enterpriseOid = None, trap_varbinds = [], trap_createdAt = 1\<rparr>"
  let ?new = "\<lparr>trap_transmitterId = None, trap_siteId = None,
                    trap_sourceHost = ''10.0.0.9'', trap_sourcePort = 162,
                    trap_community = None, trap_version = 1, trap_trapOid = None,
                    trap_enterpriseOid = None, trap_varbinds = [], trap_createdAt = 2\<rparr>"
  let ?st = "\<lparr>transmitters = [], sites = [], metric_rows = [],
              traps = [?old, ?new], faults = []\<rparr>"
  let ?p = "\<lparr>p_limit = Some 1, p_transmitterId = None, p_siteId = None,
                  p_sourceHost = Some ''10.0.0.5''\<rparr>"
  have ex: "fst (getLatestTraps ?st ?p) = Inr []
      \<and> trapLimit ?p = 1 \<and> trapMatches ?p ?old \<and> ?old \<in> set (traps ?st)"
    using latest_traps_short_example by (simp add: Let_def)
  show "\<exists>st' params' rows.
         faults st' = [] \<and> fst (getLatestTraps st' params') = Inr rows
         \<and> length rows < trapLimit params'
         \<and> (\<exists>r \<in> set (traps st'). trapMatches params' r \<and> r \<notin> set rows)"
  proof (intro exI[of _ ?st] exI[of _ ?p] exI[of _ "[]"] conjI bexI[of _ ?old])
    show "faults ?st = []" by simp
    show "fst (getLatestTraps ?st ?p) = Inr []" using ex by blast
    show "length ([]::trap_row list) < trapLimit ?p" using ex by simp
    show "trapMatches ?p ?old" using ex by blast
    show "?old \<notin> set []" by simp
    show "?old \<in> set (traps ?st)" by simp
  qed
qed

theorem latest_traps_filter_after_limit_witness:
  "fst (getLatestTraps
     \<lparr>transmitters = [], sites = [], metric_rows = [],
       traps = [\<lparr>trap_transmitterId = None, trap_siteId = None,
                   trap_sourceHost = ''10.0.0.5'', trap_sourcePort = 162,
                   trap_community = None, trap_version = 1, trap_trapOid = None,
                   trap_enterpriseOid = None, trap_varbinds = [], trap_createdAt = 1\<rparr>,
                \<lparr>trap_transmitterId = None, trap_siteId = None,
                   trap_sourceHost = ''10.0.0.9'', trap_sourcePort = 162,
                   trap_community = None, trap_version = 1, trap_trapOid = None,
                   trap_enterpriseOid = None, trap_varbinds = [], trap_createdAt = 2\<rparr>],
       faults = []\<rparr>
     \<lparr>p_limit = Some 1, p_transmitterId = None, p_siteId = None,
        p_sourceHost = Some ''10.0.0.5''\<rparr>) = Inr []"
  using latest_traps_filter_after_limit
    [of "\<lparr>transmitters = [], sites = [], metric_rows = [],
       traps = [\<lparr>trap_transmitterId = None, trap_siteId = None,
                   trap_sourceHost = ''10.0.0.5'', trap_sourcePort = 162,
                   trap_community = None, trap_version = 1, trap_trapOid = None,
                   trap_enterpriseOid = None, trap_varbinds = [], trap_createdAt = 1\<rparr>,
                \<lparr>trap_transmitterId = None, trap_siteId = None,
                   trap_sourceHost = ''10.0.0.9'', trap_sourcePort = 162,
                   trap_community = None, trap_version = 1, trap_trapOid = None,
                   trap_enterpriseOid = None, trap_varbinds = [], trap_createdAt = 2\<rparr>],
       faults = []\<rparr>"
     "\<lparr>p_limit = Some 1, p_transmitterId = None, p_siteId = None,
        p_sourceHost = Some ''10.0.0.5''\<rparr>"]
  by (simp add: trapLimit_def trapMatches_def newestFirst_def)

subsection \<open>Trap attribution\<close>

lemma find_filter:
  "find P xs = (case filter P xs of [] \<Rightarrow> None | x # _ \<Rightarrow> Some x)"
  by (induction xs) simp_all

lemma db_call_cases:
  "db_call st = (False, st) \<and> faults st = []
   \<or> (\<exists>f fs. faults st = f # fs \<and> db_call st = (f, st\<lparr>faults := fs\<rparr>))"
  by (cases "faults st") (simp_all add: db_call_def)

lemma attribute_tables:
  "traps (snd (attribute st h)) = traps st \<and> faults (snd (attribute st h)) = drop 1 (faults st)"
  using db_call_cases[of st]
  by (auto simp: attribute_def getAllTransmitters_def split: bool.splits option.splits)

lemma attribute_result:
  "fst (attribute st h) =
     (case fst (getAllTransmitters st) of
        Inl e \<Rightarrow> (None, None)
      | Inr allTx \<Rightarrow>
          (case filter (\<lambda>tx. tx_snmpHost tx = h) allTx of
             [] \<Rightarrow> (None, None)
           | m # ms \<Rightarrow> (Some (tx_id m), Some (tx_siteId m))))"
proof (cases "getAllTransmitters st")
  case (Pair r st1)
  then show ?thesis
    by (cases r) (simp_all add: attribute_def find_filter split: list.splits)
qed

lemma storeSnmpTrap_cases:
  "(\<exists>fs. faults st = True # fs) \<and> fst (storeSnmpTrap st now trap) = Inl StorageError
   \<or> \<not> (\<exists>fs. faults st = True # fs) \<and> fst (storeSnmpTrap st now trap) = Inr ()
       \<and> traps (snd (storeSnmpTrap st now trap)) = traps st @ [trap\<lparr>trap_createdAt := now\<rparr>]"
  using db_call_cases[of st]
  by (auto simp: storeSnmpTrap_def split: bool.splits)

text \<open>
  C5 as stated fails: with two transmitters whose \<open>snmp_host\<close> is the source host, the
  trap is attributed, to the first of them in the listing, although not exactly one
  transmitter matches.
\<close>

theorem trap_attributed_among_two_matches:
  "map trap_transmitterId (traps (snd (handleNotification (\<lambda>n. None)
       \<lparr>transmitters =
           [\<lparr>tx_id = ''tx1'', tx_siteId = ''siteA'', tx_name = ''Radio One'',
             tx_displayOrder = 0, tx_snmpHost = ''10.0.0.5'', tx_isActive = Some True\<rparr>,
            \<lparr>tx_id = ''tx2'', tx_siteId = ''siteB'', tx_name = ''Radio Two'',
             tx_displayOrder = 1, tx_snmpHost = ''10.0.0.5'', tx_isActive = Some True\<rparr>],
         sites = [], metric_rows = [], traps = [], faults = []\<rparr>
       5
       \<lparr>n_rinfo = Some \<lparr>r_address = Some ''10.0.0.5'', r_host = None, r_port = Some 40000\<rparr>,
         n_source = None, n_pdu = None, n_varbinds = None, n_port = None,
         n_community = Some ''public'', n_securityName = None, n_version = Some 1\<rparr>
       162))) = [Some ''tx1'']
   \<and> map trap_siteId (traps (snd (handleNotification (\<lambda>n. None)
       \<lparr>transmitters =
           [\<lparr>tx_id = ''tx1'', tx_siteId = ''siteA'', tx_name = ''Radio One'',
             tx_displayOrder = 0, tx_snmpHost = ''10.0.0.5'', tx_isActive = Some True\<rparr>,
            \<lparr>tx_id = ''tx2'', tx_siteId = ''siteB'', tx_name = ''Radio Two'',
             tx_displayOrder = 1, tx_snmpHost = ''10.0.0.5'', tx_isActive = Some True\<rparr>],
         sites = [], metric_rows = [], traps = [], faults = []\<rparr>
       5
       \<lparr>n_rinfo = Some \<lparr>r_address = Some ''10.0.0.5'', r_host = None, r_port = Some 40000\<rparr>,
         n_source = None, n_pdu = None, n_varbinds = None, n_port = None,
         n_community = Some ''public'', n_securityName = None, n_version = Some 1\<rparr>
       162))) = [Some ''siteA'']
   \<and> length (filter (\<lambda>t. tx_snmpHost t = ''10.0.0.5'')
        (transmitters
           \<lparr>transmitters =
             [\<lparr>tx_id = ''tx1'', tx_siteId = ''siteA'', tx_name = ''Radio One'',
               tx_displayOrder = 0, tx_snmpHost = ''10.0.0.5'', tx_isActive = Some True\<rparr>,
              \<lparr>tx_id = ''tx2'', tx_siteId = ''siteB'', tx_name = ''Radio Two'',
               tx_displayOrder = 1, tx_snmpHost = ''10.0.0.5'', tx_isActive = Some True\<rparr>],
           sites = [], metric_rows = [], traps = [], faults = []\<rparr>)) = 2"
  by (simp add: handleNotification_def attribute_def getAllTransmitters_def db_call_def
        storeSnmpTrap_def sourceHostOf_def or_str_def sourcePortOf_def communityOf_def
        varbindsOf_def normalizeVarbinds_def extractTrapOids_def stringValueAt_def
        Version1_def Let_def)

text \<open>
  C5, amended. Whenever the notification handler completes, it has stored exactly one trap,
  with the source host of the notification. The trap carries the id and site id of the
  first transmitter in the listing (ordered by \<open>display_order\<close>) whose \<open>snmp_host\<close>
  equals the source host, so of the only one when exactly one matches; it carries neither
  when no transmitter matches or when the listing throws. The handler fails only when the
  insert of the trap itself throws.
\<close>

theorem trap_attribution_first_match:
  "(fst (handleNotification objectType st now dat fallbackPort) = Inr () \<longrightarrow>
      (\<exists>row. traps (snd (handleNotification objectType st now dat fallbackPort)) =
               traps st @ [row]
          \<and> trap_sourceHost row = sourceHostOf dat
          \<and> (case fst (getAllTransmitters st) of
                Inl e \<Rightarrow> trap_transmitterId row = None \<and> trap_siteId row = None
              | Inr allTx \<Rightarrow>
                  (case filter (\<lambda>tx. tx_snmpHost tx = sourceHostOf dat) allTx of
                     [] \<Rightarrow> trap_transmitterId row = None \<and> trap_siteId row = None
                   | m # ms \<Rightarrow> trap_transmitterId row = Some (tx_id m)
                              \<and> trap_siteId row = Some (tx_siteId m)))))
   \<and> (\<forall>e. fst (handleNotification objectType st now dat fallbackPort) = Inl e \<longrightarrow>
          (\<exists>fs. drop 1 (faults st) = True # fs))
   \<and> (\<forall>allTx. fst (getAllTransmitters st) = Inr allTx \<longrightarrow>
          allTx = sort_key tx_displayOrder (transmitters st))"
proof -
  let ?h = "sourceHostOf dat"
  obtain a st1 where at: "attribute st ?h = (a, st1)" by (cases "attribute st ?h")
  obtain tid sid where a: "a = (tid, sid)" by (cases a)
  let ?vb = "normalizeVarbinds objectType (varbindsOf dat)"
  let ?trap = "\<lparr>trap_transmitterId = tid, trap_siteId = sid, trap_sourceHost = ?h,
                trap_sourcePort = sourcePortOf dat fallbackPort,
                trap_community = communityOf dat,
                trap_version = (if n_version dat = Some Version1 then 0 else 1),
                trap_trapOid = fst (extractTrapOids ?vb),
                trap_enterpriseOid = snd (extractTrapOids ?vb),
                trap_varbinds = ?vb, trap_createdAt = now\<rparr>"
  have H: "handleNotification objectType st now dat fallbackPort = storeSnmpTrap st1 now ?trap"
    by (simp add: handleNotification_def Let_def at a)
  have t1: "traps st1 = traps st" and f1: "faults st1 = drop 1 (faults st)"
    using attribute_tables[of st ?h] at by simp_all
  have res: "(tid, sid) =
     (case fst (getAllTransmitters st) of
        Inl e \<Rightarrow> (None, None)
      | Inr allTx \<Rightarrow>
          (case filter (\<lambda>tx. tx_snmpHost tx = ?h) allTx of
             [] \<Rightarrow> (None, None)
           | m # ms \<Rightarrow> (Some (tx_id m), Some (tx_siteId m))))"
    using attribute_result[of st ?h] at a by simp
  have p1: "fst (handleNotification objectType st now dat fallbackPort) = Inr () \<longrightarrow>
      (\<exists>row. traps (snd (handleNotification objectType st now dat fallbackPort)) =
               traps st @ [row]
          \<and> trap_sourceHost row = sourceHostOf dat
          \<and> (case fst (getAllTransmitters st) of
                Inl e \<Rightarrow> trap_transmitterId row = None \<and> trap_siteId row = None
              | Inr allTx \<Rightarrow>
                  (case filter (\<lambda>tx. tx_snmpHost tx = sourceHostOf dat) allTx of
                     [] \<Rightarrow> trap_transmitterId row = None \<and> trap_siteId row = None
                   | m # ms \<Rightarrow> trap_transmitterId row = Some (tx_id m)
                              \<and> trap_siteId row = Some (tx_siteId m))))"
  proof
    assume ok: "fst (handleNotification objectType st now dat fallbackPort) = Inr ()"
    with storeSnmpTrap_cases[of st1 now ?trap] H t1
    have rows: "traps (snd (handleNotification objectType st now dat fallbackPort)) =
        traps st @ [?trap\<lparr>trap_createdAt := now\<rparr>]" by auto
    have attr: "case fst (getAllTransmitters st) of
                Inl e \<Rightarrow> tid = None \<and> sid = None
              | Inr allTx \<Rightarrow>
                  (case filter (\<lambda>tx. tx_snmpHost tx = ?h) allTx of
                     [] \<Rightarrow> tid = None \<and> sid = None
                   | m # ms \<Rightarrow> tid = Some (tx_id m) \<and> sid = Some (tx_siteId m))"
      using res by (auto split: sum.splits list.splits)
    show "\<exists>row. traps (snd (handleNotification objectType st now dat fallbackPort)) =
               traps st @ [row]
          \<and> trap_sourceHost row = sourceHostOf dat
          \<and> (case fst (getAllTransmitters st) of
                Inl e \<Rightarrow> trap_transmitterId row = None \<and> trap_siteId row = None
              | Inr allTx \<Rightarrow>
                  (case filter (\<lambda>tx. tx_snmpHost tx = sourceHostOf dat) allTx of
                     [] \<Rightarrow> trap_transmitterId row = None \<and> trap_siteId row = None
                   | m # ms \<Rightarrow> trap_transmitterId row = Some (tx_id m)
                              \<and> trap_siteId row = Some (tx_siteId m)))"
      by (rule exI[of _ "?trap\<lparr>trap_createdAt := now\<rparr>"])
         (use rows attr in \<open>simp split: sum.splits list.splits\<close>)
  qed
  have p2: "\<forall>e. fst (handleNotification objectType st now dat fallbackPort) = Inl e \<longrightarrow>
          (\<exists>fs. drop 1 (faults st) = True # fs)"
    using storeSnmpTrap_cases[of st1 now ?trap] H f1 by auto
  have p3: "\<forall>allTx. fst (getAllTransmitters st) = Inr allTx \<longrightarrow>
          allTx = sort_key tx_displayOrder (transmitters st)"
    using db_call_cases[of st]
    by (auto simp: getAllTransmitters_def split: bool.splits)
  from p1 p2 p3 show ?thesis by blast
qed

theorem trap_attribution_first_match_witness:
  "fst (handleNotification (\<lambda>n. None)
       \<lparr>transmitters =
           [\<lparr>tx_id = ''tx1'', tx_siteId = ''siteA'', tx_name = ''Radio One'',
             tx_displayOrder = 0, tx_snmpHost = ''10.0.0.5'', tx_isActive = Some True\<rparr>,
            \<lparr>tx_id = ''tx2'', tx_siteId = ''siteB'', tx_name = ''Radio Two'',
             tx_displayOrder = 1, tx_snmpHost = ''10.0.0.5'', tx_isActive = Some True\<rparr>],
         sites = [], metric_rows = [], traps = [], faults = []\<rparr>
       5
       \<lparr>n_rinfo = Some \<lparr>r_address = Some ''10.0.0.5'', r_host = None, r_port = Some 40000\<rparr>,
         n_source = None, n_pdu = None, n_varbinds = None, n_port = None,
         n_community = Some ''public'', n_securityName = None, n_version = Some 1\<rparr>
       162) = Inr ()
   \<and> (\<exists>row. traps (snd (handleNotification (\<lambda>n. None)
       \<lparr>transmitters =
           [\<lparr>tx_id = ''tx1'', tx_siteId = ''siteA'', tx_name = ''Radio One'',
             tx_displayOrder = 0, tx_snmpHost = ''10.0.0.5'', tx_isActive = Some True\<rparr>,
            \<lparr>tx_id = ''tx2'', tx_siteId = ''siteB'', tx_name = ''Radio Two'',
             tx_displayOrder = 1, tx_snmpHost = ''10.0.0.5'', tx_isActive = Some True\<rparr>],
         sites = [], metric_rows = [], traps = [], faults = []\<rparr>
       5
       \<lparr>n_rinfo = Some \<lparr>r_address = Some ''10.0.0.5'', r_host = None, r_port = Some 40000\<rparr>,
         n_source = None, n_pdu = None, n_varbinds = None, n_port = None,
         n_community = Some ''public'', n_securityName = None, n_version = Some 1\<rparr>
       162)) = [row]
          \<and> trap_sourceHost row = ''10.0.0.5''
          \<and> trap_transmitterId row = Some ''tx1'' \<and> trap_siteId row = Some ''siteA'')"
proof -
  let ?st = "\<lparr>transmitters =
               [\<lparr>tx_id = ''tx1'', tx_siteId = ''siteA'', tx_name = ''Radio One'',
                 tx_displayOrder = 0, tx_snmpHost = ''10.0.0.5'', tx_isActive = Some True\<rparr>,
                \<lparr>tx_id = ''tx2'', tx_siteId = ''siteB'', tx_name = ''Radio Two'',
                 tx_displayOrder = 1, tx_snmpHost = ''10.0.0.5'', tx_isActive = Some True\<rparr>],
             sites = [], metric_rows = [], traps = [], faults = []\<rparr>"
  let ?dat = "\<lparr>n_rinfo = Some \<lparr>r_address = Some ''10.0.0.5'', r_host = None, r_port = Some 40000\<rparr>,
             n_source = None, n_pdu = None, n_varbinds = None, n_port = None,
             n_community = Some ''public'', n_securityName = None, n_version = Some 1\<rparr>"
  have ok: "fst (handleNotification (\<lambda>n. None) ?st 5 ?dat 162) = Inr ()"
    by (simp add: handleNotification_def attribute_def getAllTransmitters_def db_call_def
        storeSnmpTrap_def sourceHostOf_def or_str_def sourcePortOf_def communityOf_def
        varbindsOf_def normalizeVarbinds_def extractTrapOids_def stringValueAt_def
        Version1_def Let_def)
  have host: "sourceHostOf ?dat = ''10.0.0.5''"
    by (simp add: sourceHostOf_def or_str_def)
  have listing: "fst (getAllTransmitters ?st) = Inr (transmitters ?st)"
    by (simp add: getAllTransmitters_def db_call_def)
  from trap_attribution_first_match[of "\<lambda>n. None" ?st 5 ?dat 162] ok
  have "\<exists>row. traps (snd (handleNotification (\<lambda>n. None) ?st 5 ?dat 162)) = traps ?st @ [row]
          \<and> trap_sourceHost row = sourceHostOf ?dat
          \<and> (case fst (getAllTransmitters ?st) of
                Inl e \<Rightarrow> trap_transmitterId row = None \<and> trap_siteId row = None
              | Inr allTx \<Rightarrow>
                  (case filter (\<lambda>tx. tx_snmpHost tx = sourceHostOf ?dat) allTx of
                     [] \<Rightarrow> trap_transmitterId row = None \<and> trap_siteId row = None
                   | m # ms \<Rightarrow> trap_transmitterId row = Some (tx_id m)
                              \<and> trap_siteId row = Some (tx_siteId m)))"
    by blast
  then have "\<exists>row. traps (snd (handleNotification (\<lambda>n. None) ?st 5 ?dat 162)) = [row]
          \<and> trap_sourceHost row = ''10.0.0.5''
          \<and> trap_transmitterId row = Some ''tx1'' \<and> trap_siteId row = Some ''siteA''"
    unfolding host listing by simp
  with ok show ?thesis by blast
qed

subsection \<open>Contact-info normalization\<close>

text \<open>
  C8 as stated fails for the empty string: it is a string that is not valid JSON, and the
  claim gives it the synthesized object with an empty email, but \<open>normalizeSite\<close> tests
  the truthiness of the value first and turns an empty string into \<open>null\<close>.
\<close>

theorem empty_contact_becomes_null:
  "\<forall>parse.
     normalizeSite parse
       (Some \<lparr>site_id = ''s1'', site_name = ''Hill'', site_contactInfo = JStr [],
              site_isActive = Some True\<rparr>) =
     Some \<lparr>site_id = ''s1'', site_name = ''Hill'', site_contactInfo = JNull,
            site_isActive = Some True\<rparr>
     \<and> JNull \<noteq> legacy_contact []"
  by (simp add: normalizeSite_def normalizeContact_def legacy_contact_def)

text \<open>
  C8, amended. Site normalization replaces only the contact info of the row. A non-empty
  string whose trimmed text parses to a JSON object yields the parsed object; a non-empty
  string that is not valid JSON, or that parses to null, a boolean, a number or a string,
  yields the synthesized object with empty technician and phone and the original string as
  email, so the legacy string \<open>alice@example.com\<close>, which is not valid JSON, yields the
  object with that email; an object is left unchanged; the empty string and \<open>null\<close> yield
  \<open>null\<close>.
\<close>

theorem contact_info_normalization:
  "(s \<noteq> [] \<and> parse (trim s) = Some (JObj kv) \<longrightarrow>
      normalizeContact parse (JStr s) = JObj kv)
   \<and> (s \<noteq> [] \<and> parse (trim s) = None \<longrightarrow>
      normalizeContact parse (JStr s) = legacy_contact s)
   \<and> (s \<noteq> [] \<and> parse (trim s) = Some v
       \<and> (v = JNull \<or> (\<exists>b. v = JBool b) \<or> (\<exists>x. v = JNum x) \<or> (\<exists>t. v = JStr t)) \<longrightarrow>
      normalizeContact parse (JStr s) = legacy_contact s)
   \<and> normalizeContact parse (JObj kv) = JObj kv
   \<and> normalizeContact parse (JStr []) = JNull
   \<and> normalizeContact parse JNull = JNull
   \<and> (parse (trim ''alice@example.com'') = None \<longrightarrow>
      normalizeContact parse (JStr ''alice@example.com'') =
        JObj [(''technician'', JStr []), (''phone'', JStr []),
              (''email'', JStr ''alice@example.com'')])
   \<and> normalizeSite parse (Some row) =
        Some (row\<lparr>site_contactInfo := normalizeContact parse (site_contactInfo row)\<rparr>)
   \<and> normalizeSite parse None = None"
proof (intro conjI impI)
  show "normalizeContact parse (JStr s) = JObj kv"
    if "s \<noteq> [] \<and> parse (trim s) = Some (JObj kv)"
    using that by (simp add: normalizeContact_def)
  show "normalizeContact parse (JStr s) = legacy_contact s"
    if "s \<noteq> [] \<and> parse (trim s) = None"
    using that by (simp add: normalizeContact_def)
  show "normalizeContact parse (JStr s) = legacy_contact s"
    if "s \<noteq> [] \<and> parse (trim s) = Some v
       \<and> (v = JNull \<or> (\<exists>b. v = JBool b) \<or> (\<exists>x. v = JNum x) \<or> (\<exists>t. v = JStr t))"
    using that by (auto simp: normalizeContact_def)
  show "normalizeContact parse (JObj kv) = JObj kv"
    by (simp add: normalizeContact_def)
  show "normalizeContact parse (JStr []) = JNull"
    by (simp add: normalizeContact_def)
  show "normalizeContact parse JNull = JNull"
    by (simp add: normalizeContact_def)
  show "normalizeContact parse (JStr ''alice@example.com'') =
        JObj [(''technician'', JStr []), (''phone'', JStr []),
              (''email'', JStr ''alice@example.com'')]"
    if "parse (trim ''alice@example.com'') = None"
    using that by (simp add: normalizeContact_def legacy_contact_def)
  show "normalizeSite parse (Some row) =
        Some (row\<lparr>site_contactInfo := normalizeContact parse (site_contactInfo row)\<rparr>)"
    by (simp add: normalizeSite_def)
  show "normalizeSite parse None = None"
    by (simp add: normalizeSite_def)
qed

theorem contact_info_normalization_witness:
  "normalizeContact (\<lambda>s. if s = ''{}'' then Some (JObj []) else None) (JStr '' {} '') = JObj []
   \<and> normalizeContact (\<lambda>s. if s = ''{}'' then Some (JObj []) else None)
        (JStr ([CHR 0xC2, CHR 0xA0] @ ''{}'')) = JObj []
   \<and> normalizeContact (\<lambda>s. if s = ''{}'' then Some (JObj []) else None)
        (JStr ''alice@example.com'') =
        JObj [(''technician'', JStr []), (''phone'', JStr []),
              (''email'', JStr ''alice@example.com'')]"
proof -
  let ?parse = "\<lambda>s. if s = ''{}'' then Some (JObj []) else None"
  have t1: "trim '' {} '' = ''{}''" by code_simp
  have t2: "trim ''alice@example.com'' = ''alice@example.com''"
    by code_simp
  have t3: "trim ([CHR 0xC2, CHR 0xA0] @ ''{}'') = ''{}''" by code_simp
  have a: "normalizeContact ?parse (JStr '' {} '') = JObj []"
    using contact_info_normalization[of "'' {} ''" ?parse "[]"] by (simp add: t1)
  have c: "normalizeContact ?parse (JStr ([CHR 0xC2, CHR 0xA0] @ ''{}'')) = JObj []"
    using contact_info_normalization[of "[CHR 0xC2, CHR 0xA0] @ ''{}''" ?parse "[]"] t3
    by simp
  have b: "normalizeContact ?parse (JStr ''alice@example.com'') =
        JObj [(''technician'', JStr []), (''phone'', JStr []),
              (''email'', JStr ''alice@example.com'')]"
    using contact_info_normalization[of "''alice@example.com''" ?parse]
    by (simp add: t2 legacy_contact_def)
  from a b c show ?thesis by simp
qed

subsection \<open>The result ring\<close>

lemma insort_key_last:
  "(\<And>y. y \<in> set ys \<Longrightarrow> f y < f x) \<Longrightarrow> insort_key f x ys = ys @ [x]"
  for f :: "'a \<Rightarrow> int"
proof (induction ys)
  case Nil
  then show ?case by simp
next
  case (Cons y ys)
  have "f y < f x" using Cons.prems[of y] by simp
  then have "\<not> f x \<le> f y" by simp
  moreover have "insort_key f x ys = ys @ [x]" using Cons by simp
  ultimately show ?case by simp
qed

lemma sortNewestFirst_ascending:
  "sorted_wrt (\<lambda>a b. timestamp a < timestamp b) rs \<Longrightarrow> sortNewestFirst rs = rev rs"
proof (induction rs)
  case Nil
  then show ?case by (simp add: sortNewestFirst_def)
next
  case (Cons r rs)
  then have ih: "sort_key (\<lambda>r. - timestamp r) rs = rev rs"
    by (simp add: sortNewestFirst_def)
  have "insort_key (\<lambda>r. - timestamp r) r (rev rs) = rev rs @ [r]"
    using Cons.prems by (intro insort_key_last) auto
  with ih show ?case by (simp add: sortNewestFirst_def)
qed

lemma recordResult_results:
  "results (fst (recordResult p now devId succ d err)) =
     drop (length (results p) + 1 - maxResults)
       (results p @ [\<lparr>deviceId = devId, timestamp = now, success = succ, data = d, error = err\<rparr>])"
  by (simp add: recordResult_def Let_def)

lemma getResults_unfiltered_ring:
  "results (snd (getResults p None limit)) = sortNewestFirst (results p)"
  by (simp add: getResults_def Let_def)

lemma record_after_unfiltered_query:
  assumes "length (results p) = maxResults"
    and "sorted_wrt (\<lambda>a b. timestamp a < timestamp b) (results p)"
  shows "results (fst (recordResult (snd (getResults p None limit)) now devId succ d err)) =
           rev (butlast (results p))
           @ [\<lparr>deviceId = devId, timestamp = now, success = succ, data = d, error = err\<rparr>]"
proof -
  have ne: "results p \<noteq> []" using assms(1) by (auto simp: maxResults_def)
  have "results (snd (getResults p None limit)) = rev (results p)"
    using assms(2) by (simp add: getResults_unfiltered_ring sortNewestFirst_ascending)
  moreover have "drop 1 (rev (results p)) = rev (butlast (results p))"
    by (simp add: drop_Suc butlast_rev[symmetric] rev_swap del: butlast_rev)
       (metis butlast_rev rev_rev_ident)
  ultimately show ?thesis
    using assms(1) ne by (simp add: recordResult_results maxResults_def)
qed

lemma fold_record_below_cap:
  "length (results p) + length ts \<le> maxResults \<Longrightarrow>
   results (fold (\<lambda>t q. fst (recordResult q t devId succ d err)) ts p) =
     results p @ map (\<lambda>t. \<lparr>deviceId = devId, timestamp = t, success = succ, data = d, error = err\<rparr>) ts"
proof (induction ts arbitrary: p)
  case Nil
  then show ?case by simp
next
  case (Cons t ts)
  let ?q = "fst (recordResult p t devId succ d err)"
  have q: "results ?q = results p @ [\<lparr>deviceId = devId, timestamp = t, success = succ, data = d, error = err\<rparr>]"
    using Cons.prems by (simp add: recordResult_results)
  then have "length (results ?q) + length ts \<le> maxResults" using Cons.prems by simp
  from Cons.IH[OF this] q show ?case by simp
qed

lemma recordResult_length: "length (results p) \<le> maxResults \<Longrightarrow>
    length (results (fst (recordResult p now devId succ d err))) \<le> maxResults"
  by (simp add: recordResult_results)

lemma DeviceResult_eta:
  "\<lparr>deviceId = deviceId r, timestamp = timestamp r, success = success r,
     data = data r, error = error r\<rparr> = r"
  by (cases r) simp

lemma fold_record_results:
  "length (results p) \<le> maxResults \<Longrightarrow>
   results (fold (\<lambda>r q. fst (recordResult q (timestamp r) (deviceId r) (success r) (data r)
                             (error r))) rs p) =
     drop (length (results p) + length rs - maxResults) (results p @ rs)"
proof (induction rs arbitrary: p)
  case Nil
  then show ?case by simp
next
  case (Cons r rs)
  let ?q = "fst (recordResult p (timestamp r) (deviceId r) (success r) (data r) (error r))"
  define k where "k = length (results p) + 1 - maxResults"
  have q: "results ?q = drop k (results p @ [r])"
    by (simp add: recordResult_results DeviceResult_eta k_def)
  have lq: "length (results ?q) \<le> maxResults"
    using Cons.prems by (rule recordResult_length)
  have k1: "k \<le> length (results p)"
    using Cons.prems by (simp add: k_def maxResults_def)
  have e1: "drop k (results p @ [r]) @ rs = drop k (results p @ r # rs)"
    using k1 by simp
  have e2: "length (drop k (results p @ [r])) + length rs - maxResults + k =
            length (results p) + length (r # rs) - maxResults"
    using Cons.prems by (simp add: k_def maxResults_def)
  have "results (fold (\<lambda>r q. fst (recordResult q (timestamp r) (deviceId r) (success r)
            (data r) (error r))) rs ?q) =
        drop (length (results ?q) + length rs - maxResults) (results ?q @ rs)"
    using lq by (rule Cons.IH)
  then have "results (fold (\<lambda>r q. fst (recordResult q (timestamp r) (deviceId r) (success r)
            (data r) (error r))) rs ?q) =
        drop (length (drop k (results p @ [r])) + length rs - maxResults + k)
          (results p @ r # rs)"
    unfolding q e1 by (simp only: drop_drop)
  then show ?case unfolding e2 by simp
qed

text \<open>
  Recording alone keeps the ring right: after any sequence of recorded results, starting
  from the empty ring, the ring holds the last 1000 of them in the order of recording, and
  so exactly 1000 entries once more than 1000 were recorded.
\<close>

theorem ring_keeps_most_recent_without_queries:
  "results (fold (\<lambda>r q. fst (recordResult q (timestamp r) (deviceId r) (success r) (data r)
                             (error r))) rs \<lparr>results = []\<rparr>) =
     drop (length rs - maxResults) rs
   \<and> length (results (fold (\<lambda>r q. fst (recordResult q (timestamp r) (deviceId r) (success r)
                             (data r) (error r))) rs \<lparr>results = []\<rparr>)) =
       min (length rs) 1000"
  using fold_record_results[of "\<lparr>results = []\<rparr>" rs]
  by (simp add: maxResults_def)

lemma sortNewestFirst_descending:
  "sorted_wrt (\<lambda>a b. timestamp b \<le> timestamp a) (sortNewestFirst rs)"
proof -
  have "sorted (map (\<lambda>r. - timestamp r) (sortNewestFirst rs))"
    by (simp add: sortNewestFirst_def)
  then show ?thesis by (simp add: sorted_map)
qed

lemma slice_from_0_take: "\<exists>n. slice_from_0 xs limit = take n xs"
  by (auto simp: slice_from_0_def)

text \<open>
  A query returns results newest first, all of them from the ring, and leaves the number of
  entries of the ring unchanged.
\<close>

theorem getResults_newest_first:
  "sorted_wrt (\<lambda>a b. timestamp b \<le> timestamp a) (fst (getResults p devId limit))
   \<and> set (fst (getResults p devId limit)) \<subseteq> set (results p)
   \<and> length (results (snd (getResults p devId limit))) = length (results p)"
proof -
  have s: "\<And>xs. sorted_wrt (\<lambda>a b. timestamp b \<le> timestamp a)
             (slice_from_0 (sortNewestFirst xs) limit)"
  proof -
    fix xs
    obtain n where "slice_from_0 (sortNewestFirst xs) limit = take n (sortNewestFirst xs)"
      using slice_from_0_take by blast
    then show "sorted_wrt (\<lambda>a b. timestamp b \<le> timestamp a)
             (slice_from_0 (sortNewestFirst xs) limit)"
      using sortNewestFirst_descending[of xs] by (simp add: sorted_wrt_take)
  qed
  have m: "\<And>xs. set (slice_from_0 (sortNewestFirst xs) limit) \<subseteq> set xs"
  proof -
    fix xs
    obtain n where "slice_from_0 (sortNewestFirst xs) limit = take n (sortNewestFirst xs)"
      using slice_from_0_take by blast
    then show "set (slice_from_0 (sortNewestFirst xs) limit) \<subseteq> set xs"
      using set_take_subset[of n "sortNewestFirst xs"] by (simp add: sortNewestFirst_def)
  qed
  show ?thesis
  proof (cases "truthy_str devId")
    case True
    have "set (slice_from_0 (sortNewestFirst
             (filter (\<lambda>r. Some (deviceId r) = devId) (results p))) limit) \<subseteq> set (results p)"
      using m[of "filter (\<lambda>r. Some (deviceId r) = devId) (results p)"] by auto
    with True s show ?thesis by (simp add: getResults_def)
  next
    case False
    with s m show ?thesis by (simp add: getResults_def Let_def sortNewestFirst_def)
  qed
qed

lemma butlast_upt_Suc: "butlast [m..<Suc n] = [m..<n]"
  by (cases "m \<le> n") simp_all

text \<open>
  C7. The claim: after more than 1000 recorded results the ring holds the 1000 most recent
  ones. A query without a device id sorts the ring itself, newest first; the next
  \<open>recordResult\<close> appends at the end and cuts at the front, where the newest earlier
  result now stands. After 1000 results with timestamps 1 to 1000, one such query and one
  more result at 1001, the ring holds 1000 entries, with timestamps 999 down to 1 and then
  1001: the result of timestamp 1000 is gone and the oldest one is kept.
\<close>

theorem ring_drops_newest_after_unfiltered_query:
  "map timestamp (results
     (fst (recordResult
        (snd (getResults
           (fold (\<lambda>t q. fst (recordResult q t ''tx1'' False None (Some ''Request timed out'')))
              (map int [1..<1001]) \<lparr>results = []\<rparr>)
           None 100))
        1001 ''tx1'' False None (Some ''Request timed out'')))) =
     rev (map int [1..<1000]) @ [1001]
   \<and> 1000 \<notin> set (map timestamp (results
     (fst (recordResult
        (snd (getResults
           (fold (\<lambda>t q. fst (recordResult q t ''tx1'' False None (Some ''Request timed out'')))
              (map int [1..<1001]) \<lparr>results = []\<rparr>)
           None 100))
        1001 ''tx1'' False None (Some ''Request timed out'')))))
   \<and> 1 \<in> set (map timestamp (results
     (fst (recordResult
        (snd (getResults
           (fold (\<lambda>t q. fst (recordResult q t ''tx1'' False None (Some ''Request timed out'')))
              (map int [1..<1001]) \<lparr>results = []\<rparr>)
           None 100))
        1001 ''tx1'' False None (Some ''Request timed out'')))))"
proof -
  let ?R = "\<lambda>t. \<lparr>deviceId = ''tx1'', timestamp = t, success = False, data = None,
                  error = Some ''Request timed out''\<rparr>"
  let ?p1 = "fold (\<lambda>t q. fst (recordResult q t ''tx1'' False None (Some ''Request timed out'')))
              (map int [1..<1001]) \<lparr>results = []\<rparr>"
  have r1: "results ?p1 = map ?R (map int [1..<1001])"
    using fold_record_below_cap[of "\<lparr>results = []\<rparr>" "map int [1..<1001]"]
    by (simp add: maxResults_def)
  have len: "length (results ?p1) = maxResults"
    unfolding r1 maxResults_def by simp
  have "sorted_wrt (\<lambda>a b. int a < int b) [1..<1001]"
    by (simp add: sorted_wrt_upt[simplified])
  then have asc: "sorted_wrt (\<lambda>a b. timestamp a < timestamp b) (results ?p1)"
    unfolding r1 by (simp add: sorted_wrt_map)
  have "results (fst (recordResult (snd (getResults ?p1 None 100)) 1001 ''tx1'' False None
            (Some ''Request timed out''))) =
          rev (butlast (results ?p1)) @ [?R 1001]"
    using len asc by (rule record_after_unfiltered_query)
  then have eq: "map timestamp (results (fst (recordResult (snd (getResults ?p1 None 100)) 1001
            ''tx1'' False None (Some ''Request timed out'')))) =
          rev (map int [1..<1000]) @ [1001]"
    unfolding r1
    using butlast_upt_Suc[of 1 1000]
    by (simp add: map_butlast[symmetric] rev_map o_def)
  show ?thesis unfolding eq by auto
qed

end
